theory Spec2Isabelle
  imports Complex_Main
begin

section \<open>Python values used by the analyzer\<close>

subsection \<open>Floats\<close>

text \<open>
  A Python \<open>float\<close> is an IEEE 754 binary64 number. Finite values are kept as the
  rational they denote; the two zeros are identified. \<open>to_double\<close> rounds a rational
  to the nearest binary64 value, ties to even, with gradual underflow and overflow to
  infinity. It is what \<open>float(s)\<close> computes for a decimal string \<open>s\<close>, and what every
  arithmetic operation applies to its exact result.
\<close>

datatype pyfloat = Finite rat | PosInf | NegInf | NaN

function bit_length :: "int \<Rightarrow> int" where
  "bit_length n = (if n \<le> 0 then 0 else 1 + bit_length (n div 2))"
  by pat_completeness auto
termination
  by (relation "measure nat") auto

declare bit_length.simps [simp del]

definition log2floor :: "rat \<Rightarrow> int" where
  "log2floor q =
     (let (n, d) = quotient_of q;
          k = bit_length n - bit_length d
      in if 2 powi k \<le> q then k else k - 1)"

definition round_half_even :: "rat \<Rightarrow> int" where
  "round_half_even q =
     (let f = \<lfloor>q\<rfloor>; r = q - of_int f
      in if r < 1 / 2 then f
         else if 1 / 2 < r then f + 1
         else if even f then f else f + 1)"

definition to_double :: "rat \<Rightarrow> pyfloat" where
  "to_double q =
     (if q = 0 then Finite 0
      else let e = max (log2floor \<bar>q\<bar>) (- 1022);
               m = round_half_even (q / 2 powi (e - 52))
           in if 1024 \<le> e \<or> (e = 1023 \<and> \<bar>m\<bar> = 2 ^ 53)
              then (if 0 < q then PosInf else NegInf)
              else Finite (of_int m * 2 powi (e - 52)))"

fun fneg :: "pyfloat \<Rightarrow> pyfloat" where
  "fneg (Finite a) = Finite (- a)"
| "fneg PosInf = NegInf"
| "fneg NegInf = PosInf"
| "fneg NaN = NaN"

fun fadd :: "pyfloat \<Rightarrow> pyfloat \<Rightarrow> pyfloat" where
  "fadd (Finite a) (Finite b) = to_double (a + b)"
| "fadd NaN y = NaN"
| "fadd x NaN = NaN"
| "fadd PosInf NegInf = NaN"
| "fadd NegInf PosInf = NaN"
| "fadd PosInf y = PosInf"
| "fadd NegInf y = NegInf"
| "fadd x PosInf = PosInf"
| "fadd x NegInf = NegInf"

definition fsub :: "pyfloat \<Rightarrow> pyfloat \<Rightarrow> pyfloat" where
  "fsub x y = fadd x (fneg y)"

text \<open>Python's \<open><\<close> on floats: every comparison with NaN is false.\<close>

fun flt :: "pyfloat \<Rightarrow> pyfloat \<Rightarrow> bool" where
  "flt (Finite a) (Finite b) = (a < b)"
| "flt NaN y = False"
| "flt x NaN = False"
| "flt x NegInf = False"
| "flt PosInf y = False"
| "flt NegInf y = True"
| "flt x PosInf = True"

text \<open>
  The builtins \<open>min(a, b)\<close> and \<open>max(a, b)\<close> keep the first argument unless the second
  is strictly smaller (greater).
\<close>

definition py_min :: "pyfloat \<Rightarrow> pyfloat \<Rightarrow> pyfloat" where
  "py_min a b = (if flt b a then b else a)"

definition py_max :: "pyfloat \<Rightarrow> pyfloat \<Rightarrow> pyfloat" where
  "py_max a b = (if flt a b then b else a)"

subsection \<open>Exceptions\<close>

datatype py_error =
    AttributeError | ValueError | KeyError | TypeError | OverflowError
  | ZeroDivisionError | OSError | JSONDecodeError | BaselineError

subsection \<open>Dictionaries\<close>

text \<open>
  A \<open>dict\<close> is an association list in insertion order. \<open>dict_get\<close> is a lookup,
  \<open>dict_set\<close> is \<open>d[k] = v\<close> (an existing key keeps its place, a new key goes last),
  \<open>dict_incr\<close> is \<open>d[k] += 1\<close> on a \<open>defaultdict(int)\<close>, \<open>dict_pop\<close> removes a key.
\<close>

fun dict_get :: "('k \<times> 'v) list \<Rightarrow> 'k \<Rightarrow> 'v option" where
  "dict_get [] k = None"
| "dict_get ((k', v) # d) k = (if k' = k then Some v else dict_get d k)"

fun dict_set :: "('k \<times> 'v) list \<Rightarrow> 'k \<Rightarrow> 'v \<Rightarrow> ('k \<times> 'v) list" where
  "dict_set [] k v = [(k, v)]"
| "dict_set ((k', v') # d) k v =
     (if k' = k then (k, v) # d else (k', v') # dict_set d k v)"

definition dict_incr :: "('k \<times> int) list \<Rightarrow> 'k \<Rightarrow> ('k \<times> int) list" where
  "dict_incr d k = dict_set d k ((case dict_get d k of None \<Rightarrow> 0 | Some v \<Rightarrow> v) + 1)"

definition dict_pop :: "('k \<times> 'v) list \<Rightarrow> 'k \<Rightarrow> ('k \<times> 'v) list" where
  "dict_pop d k = filter (\<lambda>kv. fst kv \<noteq> k) d"

definition dict_values :: "('k \<times> 'v) list \<Rightarrow> 'v list" where
  "dict_values d = map snd d"

text \<open>\<open>needle in haystack\<close> on strings.\<close>

fun str_contains :: "string \<Rightarrow> string \<Rightarrow> bool" where
  "str_contains needle [] = (needle = [])"
| "str_contains needle (c # cs) =
     (take (length needle) (c # cs) = needle \<or> str_contains needle cs)"

section \<open>Packet records\<close>

text \<open>
  A packet is the decoder's object, read through attribute access. \<open>None\<close> in an
  optional field means that the attribute (or the layer) is missing: \<open>hasattr\<close> is
  false and reading it raises \<open>AttributeError\<close>. The two attributes that the analyzer
  converts with \<open>float()\<close> and \<open>int()\<close> hold text: \<open>Parsed\<close> carries the number that the
  text denotes, \<open>Unparsable\<close> is text on which the conversion raises \<open>ValueError\<close>.
\<close>

datatype 'a attr = Absent | Unparsable | Parsed 'a

datatype layer_name = NoAttr | PyNone | Name string

record ip_layer =
  src :: "string option"
  dst :: "string option"

record tcp_layer =
  analysis_retransmission :: bool
  flags :: "string option"
  analysis_acks_frame :: bool

record udp_layer =
  srcport :: "string option"
  dstport :: "string option"

record http_layer =
  response_code :: "string option"

record tls_layer =
  record_content_type :: "string option"
  handshake_type :: "string option"
  handshake_version :: "string option"
  handshake_ciphersuite :: "string option"

record dns_layer =
  flags_response :: "string option"
  response_time :: bool
  qry_name :: "string option"
  qry_type :: "string option"
  dns_id :: "string option"

record dhcp_layer =
  option_dhcp_message_type :: "string option"

record packet =
  sniff_timestamp :: "rat attr"
  length_p :: "int attr"
  transport_layer :: layer_name
  highest_layer :: layer_name
  ip :: "ip_layer option"
  tcp :: "tcp_layer option"
  udp :: "udp_layer option"
  http :: "http_layer option"
  tls :: "tls_layer option"
  dns :: "dns_layer option"
  dhcp :: "dhcp_layer option"
  bootp :: bool

section \<open>The statistics state\<close>

text \<open>
  The keys of \<open>conversations\<close> are \<open>(src, dst)\<close> tuples while packets are processed and
  strings after \<open>_cleanup_stats\<close>. \<open>initialize_stats\<close> makes \<open>conversations\<close> a
  \<open>defaultdict(int)\<close>, \<open>_cleanup_stats\<close> replaces it by a plain \<open>dict\<close>, on which
  \<open>d[k] += 1\<close> raises \<open>KeyError\<close> for a key that is not there. The key
  \<open>prev_udp_time\<close> is deleted by \<open>_cleanup_stats\<close>: \<open>None\<close> is the deleted key.
\<close>

datatype conv_key = TupleKey string string | StrKey string

datatype conv_dict =
    DefaultDict "(conv_key \<times> int) list"
  | PlainDict "(conv_key \<times> int) list"

fun conv_items :: "conv_dict \<Rightarrow> (conv_key \<times> int) list" where
  "conv_items (DefaultDict d) = d"
| "conv_items (PlainDict d) = d"

type_synonym flow_key = "string \<times> string \<times> string \<times> string"

record stats =
  packet_count :: int
  total_bytes :: int
  start_time :: pyfloat
  start_timestamp :: pyfloat
  end_timestamp :: pyfloat
  retransmissions :: int
  resets :: int
  dns_issues :: int
  http_errors :: "(string \<times> int) list"
  tcp_syn_delays :: "pyfloat list"
  udp_jitter :: "pyfloat list"
  top_talkers :: "(string \<times> int) list"
  protocols :: "(string option \<times> int) list"
  conversations :: conv_dict
  throughput_samples :: "(pyfloat \<times> int) list"
  prev_udp_time :: "(flow_key \<times> pyfloat) list option"
  malformed_packets :: int
  tls_handshakes :: int
  tls_versions :: "(string \<times> int) list"
  tls_cipher_suites :: "(string \<times> int) list"
  tls_alerts :: int
  expired_certs :: "string list"
  self_signed_certs :: "string list"
  dns_queries :: "(string \<times> int) list"
  dns_response_times :: "pyfloat list"
  dns_record_types :: "(string \<times> int) list"
  pending_dns_queries :: "(string \<times> pyfloat) list"
  dhcp_servers :: "(string \<times> int) list"
  dhcp_discover :: int
  dhcp_offer :: int
  dhcp_request :: int
  dhcp_ack :: int
  dhcp_nak :: int

text \<open>\<open>initialize_stats\<close>; the argument is the reading of \<open>time.time()\<close>.\<close>

definition initialize_stats :: "pyfloat \<Rightarrow> stats" where
  "initialize_stats now =
     \<lparr> packet_count = 0, total_bytes = 0, start_time = now,
       start_timestamp = PosInf, end_timestamp = Finite 0,
       retransmissions = 0, resets = 0, dns_issues = 0, http_errors = [],
       tcp_syn_delays = [], udp_jitter = [], top_talkers = [], protocols = [],
       conversations = DefaultDict [], throughput_samples = [], prev_udp_time = Some [],
       malformed_packets = 0, tls_handshakes = 0, tls_versions = [],
       tls_cipher_suites = [], tls_alerts = 0, expired_certs = [],
       self_signed_certs = [], dns_queries = [], dns_response_times = [],
       dns_record_types = [], pending_dns_queries = [], dhcp_servers = [],
       dhcp_discover = 0, dhcp_offer = 0, dhcp_request = 0, dhcp_ack = 0,
       dhcp_nak = 0 \<rparr>"

section \<open>Per-record rules\<close>

text \<open>
  The analyzer mutates \<open>stats\<close> in place, so what a rule has written before it raises
  stays written. An outcome is the state reached together with the exception that is
  propagating, if any.
\<close>

type_synonym outcome = "stats \<times> py_error option"

definition then_do :: "outcome \<Rightarrow> (stats \<Rightarrow> outcome) \<Rightarrow> outcome" where
  "then_do r f = (case r of (s, None) \<Rightarrow> f s | (s, Some e) \<Rightarrow> (s, Some e))"

text \<open>\<open>try: ... except AttributeError: log\<close>, the frame of every layer rule.\<close>

definition except_attribute_error :: "outcome \<Rightarrow> outcome" where
  "except_attribute_error r =
     (case r of (s, Some AttributeError) \<Rightarrow> (s, None) | _ \<Rightarrow> r)"

definition analyze_ip_layer :: "stats \<Rightarrow> packet \<Rightarrow> pyfloat \<Rightarrow> outcome" where
  "analyze_ip_layer s p current_time = except_attribute_error
     (case ip p of
        None \<Rightarrow> (s, Some AttributeError)
      | Some l \<Rightarrow>
          (case (src l, dst l) of
             (Some a, Some b) \<Rightarrow>
               (let s1 = s\<lparr> top_talkers := dict_incr (dict_incr (top_talkers s) a) b \<rparr>
                in case conversations s1 of
                     DefaultDict d \<Rightarrow>
                       (s1\<lparr> conversations := DefaultDict (dict_incr d (TupleKey a b)) \<rparr>,
                        None)
                   | PlainDict d \<Rightarrow>
                       (case dict_get d (TupleKey a b) of
                          None \<Rightarrow> (s1, Some KeyError)
                        | Some v \<Rightarrow>
                            (s1\<lparr> conversations :=
                                   PlainDict (dict_set d (TupleKey a b) (v + 1)) \<rparr>,
                             None)))
           | _ \<Rightarrow> (s, Some AttributeError)))"

definition analyze_tcp_layer :: "stats \<Rightarrow> packet \<Rightarrow> pyfloat \<Rightarrow> outcome" where
  "analyze_tcp_layer s p current_time = except_attribute_error
     (case tcp p of
        None \<Rightarrow> (s, Some AttributeError)
      | Some t \<Rightarrow>
          (let s1 = (if analysis_retransmission t
                     then s\<lparr> retransmissions := retransmissions s + 1 \<rparr> else s)
           in case flags t of
                None \<Rightarrow> (s1, Some AttributeError)
              | Some f \<Rightarrow>
                  (let s2 = (if str_contains ''RST'' f
                             then s1\<lparr> resets := resets s1 + 1 \<rparr> else s1);
                       s3 = (if str_contains ''SYN'' f \<and> \<not> analysis_acks_frame t
                             then s2\<lparr> tcp_syn_delays := tcp_syn_delays s2 @ [current_time] \<rparr>
                             else s2)
                   in (s3, None))))"

definition analyze_udp_layer :: "stats \<Rightarrow> packet \<Rightarrow> pyfloat \<Rightarrow> outcome" where
  "analyze_udp_layer s p current_time = except_attribute_error
     (case ip p of
        None \<Rightarrow> (s, None)
      | Some l \<Rightarrow>
          (case (src l, dst l, udp p) of
             (Some a, Some b, Some u) \<Rightarrow>
               (case (srcport u, dstport u) of
                  (Some sp, Some dp) \<Rightarrow>
                    (let flow_key = (a, b, sp, dp)
                     in case prev_udp_time s of
                          None \<Rightarrow> (s, Some KeyError)
                        | Some prev \<Rightarrow>
                            (let s1 = (case dict_get prev flow_key of
                                         None \<Rightarrow> s
                                       | Some t0 \<Rightarrow>
                                           s\<lparr> udp_jitter :=
                                                udp_jitter s @ [fsub current_time t0] \<rparr>)
                             in (s1\<lparr> prev_udp_time :=
                                       Some (dict_set prev flow_key current_time) \<rparr>, None)))
                | _ \<Rightarrow> (s, Some AttributeError))
           | _ \<Rightarrow> (s, Some AttributeError)))"

text \<open>\<open>code.startswith(('4', '5'))\<close>\<close>

definition startswith_4_or_5 :: "string \<Rightarrow> bool" where
  "startswith_4_or_5 code = (take 1 code = ''4'' \<or> take 1 code = ''5'')"

definition analyze_http_layer :: "stats \<Rightarrow> packet \<Rightarrow> outcome" where
  "analyze_http_layer s p = except_attribute_error
     (case http p of
        None \<Rightarrow> (s, Some AttributeError)
      | Some h \<Rightarrow>
          (case response_code h of
             None \<Rightarrow> (s, None)
           | Some code \<Rightarrow>
               (if startswith_4_or_5 code
                then (s\<lparr> http_errors := dict_incr (http_errors s) code \<rparr>, None)
                else (s, None))))"

definition analyze_tls_layer :: "stats \<Rightarrow> packet \<Rightarrow> outcome" where
  "analyze_tls_layer s p = except_attribute_error
     (case tls p of
        None \<Rightarrow> (s, Some AttributeError)
      | Some l \<Rightarrow>
          (let s1 = (if record_content_type l = Some ''22''
                     then s\<lparr> tls_handshakes := tls_handshakes s + 1 \<rparr> else s);
               s2 = (if handshake_type l = Some ''2''
                     then (let s1a = (case handshake_version l of
                                        None \<Rightarrow> s1
                                      | Some v \<Rightarrow>
                                          s1\<lparr> tls_versions := dict_incr (tls_versions s1) v \<rparr>)
                           in case handshake_ciphersuite l of
                                None \<Rightarrow> s1a
                              | Some c \<Rightarrow>
                                  s1a\<lparr> tls_cipher_suites :=
                                         dict_incr (tls_cipher_suites s1a) c \<rparr>)
                     else s1);
               s3 = (if record_content_type l = Some ''21''
                     then s2\<lparr> tls_alerts := tls_alerts s2 + 1 \<rparr> else s2)
           in (s3, None)))"

definition analyze_dns_layer :: "stats \<Rightarrow> packet \<Rightarrow> pyfloat \<Rightarrow> outcome" where
  "analyze_dns_layer s p current_time = except_attribute_error
     (case dns p of
        None \<Rightarrow> (s, Some AttributeError)
      | Some d \<Rightarrow>
          (case flags_response d of
             None \<Rightarrow> (s, Some AttributeError)
           | Some fr \<Rightarrow>
               then_do
                 (let s1 = (if fr = ''0'' \<and> \<not> response_time d
                            then s\<lparr> dns_issues := dns_issues s + 1 \<rparr> else s)
                  in case qry_name d of
                       None \<Rightarrow> (s1, None)
                     | Some nm \<Rightarrow>
                         (let s2 = s1\<lparr> dns_queries := dict_incr (dns_queries s1) nm \<rparr>
                          in case qry_type d of
                               None \<Rightarrow> (s2, Some AttributeError)
                             | Some ty \<Rightarrow>
                                 (s2\<lparr> dns_record_types :=
                                        dict_incr (dns_record_types s2) ty \<rparr>, None)))
                 (\<lambda>s3.
                    if fr = ''0'' then
                      (case dns_id d of
                         None \<Rightarrow> (s3, Some AttributeError)
                       | Some query_id \<Rightarrow>
                           (s3\<lparr> pending_dns_queries :=
                                  dict_set (pending_dns_queries s3) query_id current_time \<rparr>,
                            None))
                    else if fr = ''1'' then
                      (case dns_id d of
                         None \<Rightarrow> (s3, Some AttributeError)
                       | Some query_id \<Rightarrow>
                           (case dict_get (pending_dns_queries s3) query_id of
                              None \<Rightarrow> (s3, None)
                            | Some t0 \<Rightarrow>
                                (s3\<lparr> pending_dns_queries :=
                                       dict_pop (pending_dns_queries s3) query_id,
                                     dns_response_times :=
                                       dns_response_times s3 @ [fsub current_time t0] \<rparr>,
                                 None)))
                    else (s3, None))))"

definition analyze_dhcp_layer :: "stats \<Rightarrow> packet \<Rightarrow> outcome" where
  "analyze_dhcp_layer s p = except_attribute_error
     (case dhcp p of
        None \<Rightarrow> (s, None)
      | Some d \<Rightarrow>
          (case option_dhcp_message_type d of
             None \<Rightarrow> (s, None)
           | Some dhcp_type \<Rightarrow>
               if dhcp_type = ''1'' then (s\<lparr> dhcp_discover := dhcp_discover s + 1 \<rparr>, None)
               else if dhcp_type = ''2'' then
                 (let s1 = s\<lparr> dhcp_offer := dhcp_offer s + 1 \<rparr>
                  in case ip p of
                       None \<Rightarrow> (s1, None)
                     | Some l \<Rightarrow>
                         (case src l of
                            None \<Rightarrow> (s1, Some AttributeError)
                          | Some a \<Rightarrow>
                              (s1\<lparr> dhcp_servers := dict_incr (dhcp_servers s1) a \<rparr>, None)))
               else if dhcp_type = ''3'' then (s\<lparr> dhcp_request := dhcp_request s + 1 \<rparr>, None)
               else if dhcp_type = ''5'' then (s\<lparr> dhcp_ack := dhcp_ack s + 1 \<rparr>, None)
               else if dhcp_type = ''6'' then (s\<lparr> dhcp_nak := dhcp_nak s + 1 \<rparr>, None)
               else (s, None)))"

section \<open>\<open>update_stats\<close>\<close>

text \<open>\<open>float(packet.sniff_timestamp)\<close>\<close>

definition read_timestamp :: "packet \<Rightarrow> py_error + pyfloat" where
  "read_timestamp p =
     (case sniff_timestamp p of
        Absent \<Rightarrow> Inl AttributeError
      | Unparsable \<Rightarrow> Inl ValueError
      | Parsed q \<Rightarrow> Inr (to_double q))"

text \<open>\<open>packet.transport_layer or packet.highest_layer\<close>\<close>

definition read_protocol :: "packet \<Rightarrow> py_error + string option" where
  "read_protocol p =
     (let highest = (case highest_layer p of
                       NoAttr \<Rightarrow> Inl AttributeError
                     | PyNone \<Rightarrow> Inr None
                     | Name h \<Rightarrow> Inr (Some h))
      in case transport_layer p of
           NoAttr \<Rightarrow> Inl AttributeError
         | PyNone \<Rightarrow> highest
         | Name t \<Rightarrow> if t = [] then highest else Inr (Some t))"

text \<open>The size rule: \<open>if hasattr(packet, 'length'): ...\<close>\<close>

definition tally_size :: "stats \<Rightarrow> packet \<Rightarrow> pyfloat \<Rightarrow> outcome" where
  "tally_size s p current_time =
     (case length_p p of
        Absent \<Rightarrow> (s, None)
      | Unparsable \<Rightarrow> (s, Some ValueError)
      | Parsed packet_size \<Rightarrow>
          (s\<lparr> total_bytes := total_bytes s + packet_size,
              throughput_samples := throughput_samples s @ [(current_time, packet_size)] \<rparr>,
           None))"

definition tally_protocol :: "stats \<Rightarrow> packet \<Rightarrow> outcome" where
  "tally_protocol s p =
     (case read_protocol p of
        Inl e \<Rightarrow> (s, Some e)
      | Inr protocol \<Rightarrow> (s\<lparr> protocols := dict_incr (protocols s) protocol \<rparr>, None))"

text \<open>The layer rules, in the order of the source, from the IP rule on.\<close>

definition analyze_layers :: "stats \<Rightarrow> packet \<Rightarrow> pyfloat \<Rightarrow> outcome" where
  "analyze_layers s p current_time =
     then_do (if ip p \<noteq> None then analyze_ip_layer s p current_time else (s, None)) (\<lambda>s.
     then_do (if tcp p \<noteq> None then analyze_tcp_layer s p current_time else (s, None)) (\<lambda>s.
     then_do (if udp p \<noteq> None then analyze_udp_layer s p current_time else (s, None)) (\<lambda>s.
     then_do (if http p \<noteq> None then analyze_http_layer s p else (s, None)) (\<lambda>s.
     then_do (if tls p \<noteq> None then analyze_tls_layer s p else (s, None)) (\<lambda>s.
     then_do (if dns p \<noteq> None then analyze_dns_layer s p current_time else (s, None)) (\<lambda>s.
       if dhcp p \<noteq> None \<or> bootp p then analyze_dhcp_layer s p else (s, None)))))))"

text \<open>The body of the \<open>try\<close> block of \<open>update_stats\<close>.\<close>

definition update_stats_body :: "stats \<Rightarrow> packet \<Rightarrow> outcome" where
  "update_stats_body s p =
     (let s1 = s\<lparr> packet_count := packet_count s + 1 \<rparr>
      in case read_timestamp p of
           Inl e \<Rightarrow> (s1, Some e)
         | Inr current_time \<Rightarrow>
             (let s2 = s1\<lparr> start_timestamp := py_min (start_timestamp s1) current_time \<rparr>;
                  s3 = s2\<lparr> end_timestamp := py_max (end_timestamp s2) current_time \<rparr>
              in then_do (tally_size s3 p current_time) (\<lambda>s4.
                 then_do (tally_protocol s4 p) (\<lambda>s5.
                   analyze_layers s5 p current_time))))"

text \<open>
  \<open>update_stats\<close>: the body under \<open>except Exception\<close>, whose handler logs and counts the
  record as malformed.
\<close>

definition update_stats :: "stats \<Rightarrow> packet \<Rightarrow> outcome" where
  "update_stats s p =
     (case update_stats_body s p of
        (s', None) \<Rightarrow> (s', None)
      | (s', Some e) \<Rightarrow> (s'\<lparr> malformed_packets := malformed_packets s' + 1 \<rparr>, None))"

text \<open>
  The loop of \<open>analyze_pcap\<close>: \<open>for packet in all_packets: self.update_stats(stats, packet)\<close>.
  An exception leaving \<open>update_stats\<close> would end the loop.
\<close>

fun process :: "stats \<Rightarrow> packet list \<Rightarrow> outcome" where
  "process s [] = (s, None)"
| "process s (p # ps) = then_do (update_stats s p) (\<lambda>s'. process s' ps)"

text \<open>
  A record faults before the protocol tally when reading its timestamp, its size or its
  protocol name raises.
\<close>

definition faults_before_tally :: "packet \<Rightarrow> bool" where
  "faults_before_tally p \<longleftrightarrow>
     isl (read_timestamp p) \<or> length_p p = Unparsable \<or> isl (read_protocol p)"

text \<open>What no layer rule writes: the packet count, the protocol tally, the malformed count.\<close>

definition frame :: "stats \<Rightarrow> stats \<Rightarrow> bool" where
  "frame s s' \<longleftrightarrow>
     packet_count s' = packet_count s \<and> protocols s' = protocols s
     \<and> malformed_packets s' = malformed_packets s"

text \<open>The entry that the IP rule tallies for a record, on the items of \<open>conversations\<close>.\<close>

definition tally_conversation ::
  "(conv_key \<times> int) list \<Rightarrow> packet \<Rightarrow> (conv_key \<times> int) list" where
  "tally_conversation d p =
     (case ip p of
        None \<Rightarrow> d
      | Some l \<Rightarrow>
          (case (src l, dst l) of
             (Some a, Some b) \<Rightarrow> dict_incr d (TupleKey a b)
           | _ \<Rightarrow> d))"

text \<open>The items of \<open>conversations\<close> after a sequence of records, from the items \<open>d\<close>.\<close>

fun tally_conversations ::
  "(conv_key \<times> int) list \<Rightarrow> packet list \<Rightarrow> (conv_key \<times> int) list" where
  "tally_conversations d [] = d"
| "tally_conversations d (p # ps) =
     tally_conversations (if faults_before_tally p then d else tally_conversation d p) ps"

text \<open>A key that is a tuple of two addresses without underscore.\<close>

fun plain_key :: "conv_key \<Rightarrow> bool" where
  "plain_key (TupleKey a b) = (CHR ''_'' \<notin> set a \<and> CHR ''_'' \<notin> set b)"
| "plain_key (StrKey k) = False"

text \<open>The addresses of the IP layer of a record, where it has them, contain no underscore.\<close>

definition underscore_free_addresses :: "packet \<Rightarrow> bool" where
  "underscore_free_addresses p =
     (case ip p of
        None \<Rightarrow> True
      | Some l \<Rightarrow>
          (case src l of None \<Rightarrow> True | Some a \<Rightarrow> CHR ''_'' \<notin> set a)
          \<and> (case dst l of None \<Rightarrow> True | Some b \<Rightarrow> CHR ''_'' \<notin> set b))"

subsection \<open>Example records\<close>

text \<open>A record of the UDP flow 10.0.0.1:5000 to 10.0.0.2:6000, with the given timestamp text.\<close>

definition udp_record :: "rat attr \<Rightarrow> packet" where
  "udp_record ts =
     \<lparr> sniff_timestamp = ts, length_p = Parsed 60,
       transport_layer = Name ''UDP'', highest_layer = Name ''DATA'',
       ip = Some \<lparr> src = Some ''10.0.0.1'', dst = Some ''10.0.0.2'' \<rparr>,
       tcp = None,
       udp = Some \<lparr> srcport = Some ''5000'', dstport = Some ''6000'' \<rparr>,
       http = None, tls = None, dns = None, dhcp = None, bootp = False \<rparr>"

text \<open>A record that carries only an IP layer, with the given addresses.\<close>

definition ip_record :: "string \<Rightarrow> string \<Rightarrow> packet" where
  "ip_record a b =
     \<lparr> sniff_timestamp = Parsed 1, length_p = Parsed 60,
       transport_layer = PyNone, highest_layer = Name ''IP'',
       ip = Some \<lparr> src = Some a, dst = Some b \<rparr>,
       tcp = None, udp = None, http = None, tls = None, dns = None, dhcp = None,
       bootp = False \<rparr>"

text \<open>
  A DNS record for the name \<open>example.org\<close>, with the given timestamp, response flag,
  transaction id and query type attribute.
\<close>

definition dns_record :: "rat \<Rightarrow> string \<Rightarrow> string \<Rightarrow> string option \<Rightarrow> packet" where
  "dns_record ts fr qid ty =
     \<lparr> sniff_timestamp = Parsed ts, length_p = Parsed 80,
       transport_layer = Name ''UDP'', highest_layer = Name ''DNS'',
       ip = None, tcp = None, udp = None, http = None, tls = None,
       dns = Some \<lparr> flags_response = Some fr, response_time = False,
                    qry_name = Some ''example.org'', qry_type = ty,
                    dns_id = Some qid \<rparr>,
       dhcp = None, bootp = False \<rparr>"

section \<open>\<open>_cleanup_stats\<close>\<close>

text \<open>\<open>"_".join(str(item) for item in k)\<close> for a tuple key, the key itself otherwise.\<close>

fun new_key :: "conv_key \<Rightarrow> conv_key" where
  "new_key (TupleKey a b) = StrKey (a @ ''_'' @ b)"
| "new_key (StrKey k) = StrKey k"

fun convert_conversations ::
  "(conv_key \<times> int) list \<Rightarrow> (conv_key \<times> int) list \<Rightarrow> (conv_key \<times> int) list" where
  "convert_conversations acc [] = acc"
| "convert_conversations acc ((k, v) # items) =
     convert_conversations (dict_set acc (new_key k) v) items"

definition cleanup_stats :: "stats \<Rightarrow> stats" where
  "cleanup_stats s =
     s\<lparr> prev_udp_time := None,
         conversations :=
           PlainDict (convert_conversations [] (conv_items (conversations s))) \<rparr>"

text \<open>The keys of the dictionary \<open>stats\<close>.\<close>

definition stats_keys :: "stats \<Rightarrow> string list" where
  "stats_keys s =
     [''packet_count'', ''total_bytes'', ''start_time'', ''start_timestamp'',
      ''end_timestamp'', ''retransmissions'', ''resets'', ''dns_issues'', ''http_errors'',
      ''tcp_syn_delays'', ''udp_jitter'', ''top_talkers'', ''protocols'', ''conversations'',
      ''throughput_samples'']
     @ (case prev_udp_time s of None \<Rightarrow> [] | Some d \<Rightarrow> [''prev_udp_time''])
     @ [''malformed_packets'', ''tls_handshakes'', ''tls_versions'', ''tls_cipher_suites'',
        ''tls_alerts'', ''expired_certs'', ''self_signed_certs'', ''dns_queries'',
        ''dns_response_times'', ''dns_record_types'', ''pending_dns_queries'',
        ''dhcp_servers'', ''dhcp_discover'', ''dhcp_offer'', ''dhcp_request'', ''dhcp_ack'',
        ''dhcp_nak'']"

section \<open>Baselines\<close>

subsection \<open>Numbers\<close>

text \<open>
  IEEE division. Python raises \<open>ZeroDivisionError\<close> on a zero divisor before it divides
  (\<open>py_truediv\<close>), so the value given here for a zero divisor is never used by the code.
\<close>

fun fdiv :: "pyfloat \<Rightarrow> pyfloat \<Rightarrow> pyfloat" where
  "fdiv NaN y = NaN"
| "fdiv x NaN = NaN"
| "fdiv (Finite a) (Finite b) =
     (if b = 0 then (if a = 0 then NaN else if 0 < a then PosInf else NegInf)
      else to_double (a / b))"
| "fdiv (Finite a) y = Finite 0"
| "fdiv PosInf (Finite b) = (if b < 0 then NegInf else PosInf)"
| "fdiv NegInf (Finite b) = (if b < 0 then PosInf else NegInf)"
| "fdiv x y = NaN"

definition py_truediv :: "pyfloat \<Rightarrow> pyfloat \<Rightarrow> py_error + pyfloat" where
  "py_truediv a b = (if b = Finite 0 then Inl ZeroDivisionError else Inr (fdiv a b))"

text \<open>An argument of \<open>safe_divide\<close> is an \<open>int\<close> or a \<open>float\<close>.\<close>

datatype pynum = PyInt int | PyFloat pyfloat

definition int_to_float :: "int \<Rightarrow> pyfloat" where
  "int_to_float n = to_double (of_int n)"

text \<open>\<open>float(x)\<close>: an \<open>int\<close> too large for a float raises \<open>OverflowError\<close>.\<close>

fun py_float :: "pynum \<Rightarrow> py_error + pyfloat" where
  "py_float (PyInt n) =
     (case int_to_float n of Finite a \<Rightarrow> Inr (Finite a) | _ \<Rightarrow> Inl OverflowError)"
| "py_float (PyFloat f) = Inr f"

text \<open>\<open>x == 0\<close>\<close>

fun is_zero :: "pynum \<Rightarrow> bool" where
  "is_zero (PyInt n) = (n = 0)"
| "is_zero (PyFloat f) = (f = Finite 0)"

definition safe_divide :: "pynum \<Rightarrow> pynum \<Rightarrow> py_error + pyfloat" where
  "safe_divide numerator denominator =
     (if is_zero denominator then Inr (Finite 0)
      else case py_float numerator of
             Inl e \<Rightarrow> Inl e
           | Inr a \<Rightarrow>
               (case py_float denominator of
                  Inl e \<Rightarrow> Inl e
                | Inr b \<Rightarrow> py_truediv a b))"

text \<open>
  The builtin \<open>sum\<close> on a list of floats, from left to right starting at 0, as it adds up
  to Python 3.11.
\<close>

definition py_sum :: "pyfloat list \<Rightarrow> pyfloat" where
  "py_sum xs = foldl fadd (Finite 0) xs"

subsection \<open>JSON values\<close>

datatype json =
    JNull | JBool bool | JInt int | JFloat pyfloat | JStr string
  | JArr "json list" | JObj "(string \<times> json) list"

text \<open>The truth value of what \<open>json.load\<close> returns, as \<open>or\<close> tests it.\<close>

fun truthy :: "json \<Rightarrow> bool" where
  "truthy JNull = False"
| "truthy (JBool b) = b"
| "truthy (JInt n) = (n \<noteq> 0)"
| "truthy (JFloat f) = (f \<noteq> Finite 0)"
| "truthy (JStr x) = (x \<noteq> [])"
| "truthy (JArr xs) = (xs \<noteq> [])"
| "truthy (JObj kvs) = (kvs \<noteq> [])"

text \<open>\<open>data[key] = value\<close> with a string key: only a dictionary takes it.\<close>

fun set_item :: "json \<Rightarrow> string \<Rightarrow> json \<Rightarrow> py_error + json" where
  "set_item (JObj kvs) k v = Inr (JObj (dict_set kvs k v))"
| "set_item j k v = Inl TypeError"

subsection \<open>The metrics of a snapshot\<close>

text \<open>
  \<open>safe_divide(sum(xs), len(xs)) if xs else 0\<close>
\<close>

definition average :: "pyfloat list \<Rightarrow> py_error + json" where
  "average xs =
     (if xs = [] then Inr (JInt 0)
      else case safe_divide (PyFloat (py_sum xs)) (PyInt (int (length xs))) of
             Inl e \<Rightarrow> Inl e
           | Inr q \<Rightarrow> Inr (JFloat q))"

text \<open>The dictionary display that \<open>update_baseline\<close> stores as the bucket.\<close>

definition baseline_metrics :: "stats \<Rightarrow> py_error + json" where
  "baseline_metrics s =
     (case safe_divide (PyInt (retransmissions s)) (PyInt (packet_count s)) of
        Inl e \<Rightarrow> Inl e
      | Inr rate \<Rightarrow>
     (case average (tcp_syn_delays s) of
        Inl e \<Rightarrow> Inl e
      | Inr delay \<Rightarrow>
     (case average (udp_jitter s) of
        Inl e \<Rightarrow> Inl e
      | Inr jitter \<Rightarrow>
     (case safe_divide (PyInt (sum_list (dict_values (http_errors s))))
             (PyInt (packet_count s)) of
        Inl e \<Rightarrow> Inl e
      | Inr http_rate \<Rightarrow>
          Inr (JObj [(''tcp_retransmission_rate'', JFloat rate),
                     (''tcp_resets'', JInt (resets s)),
                     (''avg_tcp_handshake_delay'', delay),
                     (''avg_udp_jitter'', jitter),
                     (''http_error_rate'', JFloat http_rate)])))))"

subsection \<open>Paths and files\<close>

text \<open>
  A \<open>pathlib\<close> path: the anchor (drive and root) and the names after it. \<open>suffix_of\<close> is
  the property \<open>suffix\<close> on the last name: from its last dot on, unless that dot is the
  first or the last character. \<open>with_suffix\<close> replaces the suffix of the last name, or
  appends to a name that has none, and raises \<open>ValueError\<close> on an empty name.
\<close>

record path =
  anchor :: string
  names :: "string list"

definition name_of :: "path \<Rightarrow> string" where
  "name_of p = (if names p = [] then [] else last (names p))"

definition suffix_of :: "string \<Rightarrow> string" where
  "suffix_of name =
     (if CHR ''.'' \<in> set name
      then (let k = length (takeWhile (\<lambda>c. c \<noteq> CHR ''.'') (rev name));
                i = length name - k - 1
            in if 0 < i \<and> 0 < k then drop i name else [])
      else [])"

definition with_suffix :: "path \<Rightarrow> string \<Rightarrow> py_error + path" where
  "with_suffix p suffix =
     (let name = name_of p
      in if name = [] then Inl ValueError
         else let old_suffix = suffix_of name;
                  new_name = (if old_suffix = [] then name @ suffix
                              else take (length name - length old_suffix) name @ suffix)
              in Inr (p\<lparr> names := butlast (names p) @ [new_name] \<rparr>))"

text \<open>
  What a file holds: the text of a JSON value, or text that \<open>json.load\<close> rejects (an empty
  or partly written file among others).
\<close>

datatype content = Json json | NotJson

type_synonym filesystem = "path \<Rightarrow> content option"

text \<open>The step of the input and output that fails in a call, if one does.\<close>

datatype fault = NoFault | ReadFails | MkdirFails | OpenFails | WriteFails | ReplaceFails

subsection \<open>\<open>BaselineManager\<close>\<close>

text \<open>\<open>get_baseline_type\<close>; the argument is \<open>datetime.now().weekday()\<close>.\<close>

definition get_baseline_type :: "nat \<Rightarrow> string" where
  "get_baseline_type weekday = (if weekday < 5 then ''workday'' else ''weekend'')"

definition load_baseline :: "path \<Rightarrow> fault \<Rightarrow> filesystem \<Rightarrow> py_error + json option" where
  "load_baseline baseline_path failing fs =
     (case fs baseline_path of
        None \<Rightarrow> Inr None
      | Some c \<Rightarrow>
          if failing = ReadFails then Inl BaselineError
          else (case c of
                  NotJson \<Rightarrow> Inl BaselineError
                | Json j \<Rightarrow> Inr (Some j)))"

definition save_baseline ::
  "path \<Rightarrow> fault \<Rightarrow> filesystem \<Rightarrow> json \<Rightarrow> py_error option \<times> filesystem" where
  "save_baseline baseline_path failing fs baseline_data =
     (if failing = MkdirFails then (Some BaselineError, fs)
      else case with_suffix baseline_path ''.tmp'' of
             Inl e \<Rightarrow> (Some e, fs)
           | Inr temp_path \<Rightarrow>
               if failing = OpenFails then (Some BaselineError, fs)
               else if failing = WriteFails
               then (Some BaselineError, fs(temp_path \<mapsto> NotJson))
               else (let fs1 = fs(temp_path \<mapsto> Json baseline_data)
                     in if failing = ReplaceFails then (Some BaselineError, fs1)
                        else (None, (fs1(temp_path := None))
                                      (baseline_path \<mapsto> Json baseline_data))))"

definition default_baseline :: json where
  "default_baseline = JObj [(''workday'', JObj []), (''weekend'', JObj [])]"

text \<open>\<open>self.load_baseline() or {"workday": {}, "weekend": {}}\<close>\<close>

definition or_default :: "json option \<Rightarrow> json" where
  "or_default loaded =
     (case loaded of
        None \<Rightarrow> default_baseline
      | Some j \<Rightarrow> if truthy j then j else default_baseline)"

text \<open>The body of the \<open>try\<close> block of \<open>update_baseline\<close>.\<close>

definition update_baseline_body ::
  "path \<Rightarrow> nat \<Rightarrow> fault \<Rightarrow> filesystem \<Rightarrow> stats \<Rightarrow> py_error option \<times> filesystem" where
  "update_baseline_body baseline_path weekday failing fs s =
     (if packet_count s = 0 then (Some BaselineError, fs)
      else let baseline_type = get_baseline_type weekday
           in case load_baseline baseline_path failing fs of
                Inl e \<Rightarrow> (Some e, fs)
              | Inr loaded \<Rightarrow>
                  (let baseline_data = or_default loaded
                   in case baseline_metrics s of
                        Inl e \<Rightarrow> (Some e, fs)
                      | Inr bucket \<Rightarrow>
                          (case set_item baseline_data baseline_type bucket of
                             Inl e \<Rightarrow> (Some e, fs)
                           | Inr new_data \<Rightarrow>
                               save_baseline baseline_path failing fs new_data)))"

text \<open>
  \<open>update_baseline\<close>: the body under \<open>except Exception\<close>, whose handler logs the error and
  returns \<open>False\<close>.
\<close>

definition update_baseline ::
  "path \<Rightarrow> nat \<Rightarrow> fault \<Rightarrow> filesystem \<Rightarrow> stats \<Rightarrow> bool \<times> filesystem" where
  "update_baseline baseline_path weekday failing fs s =
     (case update_baseline_body baseline_path weekday failing fs s of
        (None, fs') \<Rightarrow> (True, fs')
      | (Some e, fs') \<Rightarrow> (False, fs'))"

text \<open>The top-level keys of the record that a file holds.\<close>

fun stored_keys :: "content option \<Rightarrow> string list" where
  "stored_keys (Some (Json (JObj kvs))) = map fst kvs"
| "stored_keys c = []"



subsection \<open>The metrics in the words of the specification\<close>



subsection \<open>Example files\<close>

definition default_path :: path where
  "default_path = \<lparr> anchor = [], names = [''network_baselines.json''] \<rparr>"

definition tmp_named_path :: path where
  "tmp_named_path = \<lparr> anchor = [], names = [''baselines.tmp''] \<rparr>"

text \<open>A snapshot of one packet.\<close>

definition one_packet_stats :: stats where
  "one_packet_stats = (initialize_stats (Finite 0))\<lparr> packet_count := 1 \<rparr>"


section \<open>Properties\<close>

subsection \<open>Dictionaries\<close>

lemma dict_get_dict_set:
  "dict_get (dict_set d k v) k' = (if k' = k then Some v else dict_get d k')"
  by (induction d) auto

lemma dict_get_None_iff: "dict_get d k = None \<longleftrightarrow> k \<notin> fst ` set d"
  by (induction d) (auto split: if_splits)

subsection \<open>Finalization\<close>

lemma dict_get_convert_notin:
  "k \<notin> (\<lambda>kv. new_key (fst kv)) ` set items \<Longrightarrow>
   dict_get (convert_conversations acc items) k = dict_get acc k"
  by (induction items arbitrary: acc) (auto simp: dict_get_dict_set)

lemma dict_get_convert:
  "distinct (map (\<lambda>kv. new_key (fst kv)) items) \<Longrightarrow> (k, v) \<in> set items \<Longrightarrow>
   dict_get (convert_conversations acc items) (new_key k) = Some v"
proof (induction items arbitrary: acc)
  case Nil
  then show ?case by simp
next
  case (Cons kv items)
  obtain k0 v0 where kv: "kv = (k0, v0)" by (cases kv)
  show ?case
  proof (cases "(k, v) = kv")
    case True
    with kv Cons.prems(1) have "new_key k \<notin> (\<lambda>kv. new_key (fst kv)) ` set items"
      by auto
    then show ?thesis using True kv
      by (simp add: dict_get_convert_notin dict_get_dict_set)
  next
    case False
    with Cons.prems have "(k, v) \<in> set items"
      and "distinct (map (\<lambda>kv. new_key (fst kv)) items)" by auto
    then show ?thesis
      using Cons.IH [of "dict_set acc (new_key k0) v0"] kv by simp
  qed
qed

lemma new_key_not_tuple: "TupleKey a b \<noteq> new_key k"
  by (cases k) auto

text \<open>
  C9, as the source has it. \<open>_cleanup_stats\<close> deletes the key \<open>prev_udp_time\<close> and no other:
  after it the UDP last-seen table is absent from the snapshot, while the pending DNS
  query table is still a key of the snapshot, holding what it held before.
\<close>

theorem cleanup_drops_only_prev_udp_time:
  "''prev_udp_time'' \<notin> set (stats_keys (cleanup_stats s))
   \<and> ''pending_dns_queries'' \<in> set (stats_keys (cleanup_stats s))
   \<and> pending_dns_queries (cleanup_stats s) = pending_dns_queries s"
  by (simp add: stats_keys_def cleanup_stats_def)

text \<open>
  C9 as the specification states it, that both correlation tables are absent after
  finalization, fails already on the finalized empty snapshot.
\<close>

theorem cleanup_keeps_pending_dns_queries_counterexample:
  "\<not> (''prev_udp_time'' \<notin> set (stats_keys (cleanup_stats (initialize_stats (Finite 0))))
      \<and> ''pending_dns_queries'' \<notin>
          set (stats_keys (cleanup_stats (initialize_stats (Finite 0)))))"
  by (simp add: stats_keys_def cleanup_stats_def)

theorem cleanup_drops_only_prev_udp_time_witness:
  "''prev_udp_time'' \<in> set (stats_keys (initialize_stats (Finite 0)))
   \<and> ''prev_udp_time'' \<notin> set (stats_keys (cleanup_stats (initialize_stats (Finite 0))))
   \<and> pending_dns_queries (cleanup_stats (initialize_stats (Finite 0))) = []"
  using cleanup_drops_only_prev_udp_time [of "initialize_stats (Finite 0)"]
  by (simp add: stats_keys_def initialize_stats_def)

subsection \<open>The rules of one record\<close>

lemma sum_dict_set:
  "sum_list (dict_values (dict_set d k v)) =
   sum_list (dict_values d) - (case dict_get d k of None \<Rightarrow> 0 | Some v0 \<Rightarrow> v0) + (v::int)"
  by (induction d) (auto simp: dict_values_def)

lemma sum_dict_incr: "sum_list (dict_values (dict_incr d k)) = sum_list (dict_values d) + 1"
  by (simp add: dict_incr_def sum_dict_set split: option.splits)

lemma frame_refl: "frame s s"
  by (simp add: frame_def)

lemma frame_trans: "frame s s' \<Longrightarrow> frame s' s'' \<Longrightarrow> frame s s''"
  by (simp add: frame_def)

lemma frame_except: "frame s (fst r) \<Longrightarrow> frame s (fst (except_attribute_error r))"
  by (auto simp: except_attribute_error_def split: prod.splits option.splits py_error.splits)

lemma frame_ip: "frame s (fst (analyze_ip_layer s p t))"
  unfolding analyze_ip_layer_def
  by (rule frame_except) (auto simp: frame_def Let_def split: option.splits conv_dict.splits)

lemma frame_tcp: "frame s (fst (analyze_tcp_layer s p t))"
  unfolding analyze_tcp_layer_def
  by (rule frame_except) (auto simp: frame_def Let_def split: option.splits)

lemma frame_udp: "frame s (fst (analyze_udp_layer s p t))"
  unfolding analyze_udp_layer_def
  by (rule frame_except) (auto simp: frame_def Let_def split: option.splits)

lemma frame_http: "frame s (fst (analyze_http_layer s p))"
  unfolding analyze_http_layer_def
  by (rule frame_except) (auto simp: frame_def Let_def split: option.splits)

lemma frame_tls: "frame s (fst (analyze_tls_layer s p))"
  unfolding analyze_tls_layer_def
  by (rule frame_except) (auto simp: frame_def Let_def split: option.splits)

lemma frame_dns: "frame s (fst (analyze_dns_layer s p t))"
  unfolding analyze_dns_layer_def
  by (rule frame_except) (auto simp: frame_def then_do_def Let_def split: option.splits)

lemma frame_dhcp: "frame s (fst (analyze_dhcp_layer s p))"
  unfolding analyze_dhcp_layer_def
  by (rule frame_except) (auto simp: frame_def Let_def split: option.splits)

lemma frame_then_do:
  "frame s (fst r) \<Longrightarrow> (\<And>s'. frame s' (fst (f s'))) \<Longrightarrow> frame s (fst (then_do r f))"
  by (cases r) (auto simp: then_do_def frame_def split: option.splits)

lemma frame_layers: "frame s (fst (analyze_layers s p t))"
  unfolding analyze_layers_def
  by (intro frame_then_do)
     (simp_all add: frame_refl frame_ip frame_tcp frame_udp frame_http frame_tls frame_dns
        frame_dhcp)

lemma layers_kept:
  "packet_count (fst (analyze_layers s p t)) = packet_count s"
  "protocols (fst (analyze_layers s p t)) = protocols s"
  "malformed_packets (fst (analyze_layers s p t)) = malformed_packets s"
  using frame_layers [of s p t] by (simp_all add: frame_def)

lemma no_attribute_error_except: "snd (except_attribute_error r) \<noteq> Some AttributeError"
  by (auto simp: except_attribute_error_def split: prod.splits option.splits py_error.splits)

lemma then_do_no_attribute_error:
  "snd r \<noteq> Some AttributeError \<Longrightarrow> (\<And>s'. snd (f s') \<noteq> Some AttributeError) \<Longrightarrow>
   snd (then_do r f) \<noteq> Some AttributeError"
  by (cases r) (auto simp: then_do_def split: option.splits)

lemma layers_no_attribute_error: "snd (analyze_layers s p t) \<noteq> Some AttributeError"
  unfolding analyze_layers_def
  by (intro then_do_no_attribute_error)
     (simp_all add: analyze_ip_layer_def analyze_tcp_layer_def analyze_udp_layer_def
        analyze_http_layer_def analyze_tls_layer_def analyze_dns_layer_def
        analyze_dhcp_layer_def no_attribute_error_except)

lemma rules_after_timestamp:
  fixes s3 p t
  defines "r \<equiv> then_do (tally_size s3 p t) (\<lambda>s4.
                 then_do (tally_protocol s4 p) (\<lambda>s5. analyze_layers s5 p t))"
  shows "packet_count (fst r) = packet_count s3"
    and "malformed_packets (fst r) = malformed_packets s3"
    and "sum_list (dict_values (protocols (fst r))) =
         sum_list (dict_values (protocols s3))
           + (if length_p p = Unparsable \<or> isl (read_protocol p) then 0 else 1)"
  unfolding r_def
  by (auto simp: then_do_def tally_size_def tally_protocol_def layers_kept sum_dict_incr
      split: attr.splits sum.splits option.splits prod.splits)

lemma body_packet_count: "packet_count (fst (update_stats_body s p)) = packet_count s + 1"
  by (cases "read_timestamp p") (simp_all add: update_stats_body_def Let_def rules_after_timestamp)

lemma body_malformed_packets:
  "malformed_packets (fst (update_stats_body s p)) = malformed_packets s"
  by (cases "read_timestamp p") (simp_all add: update_stats_body_def Let_def rules_after_timestamp)

lemma body_protocols:
  "sum_list (dict_values (protocols (fst (update_stats_body s p)))) =
   sum_list (dict_values (protocols s)) + (if faults_before_tally p then 0 else 1)"
  by (cases "read_timestamp p")
     (simp_all add: update_stats_body_def Let_def rules_after_timestamp faults_before_tally_def)

lemma update_stats_snd: "snd (update_stats s p) = None"
  by (cases "update_stats_body s p") (simp add: update_stats_def split: option.splits)

lemma update_stats_fst:
  "fst (update_stats s p) =
     (case snd (update_stats_body s p) of
        None \<Rightarrow> fst (update_stats_body s p)
      | Some e \<Rightarrow> (fst (update_stats_body s p))
           \<lparr> malformed_packets := malformed_packets s + 1 \<rparr>)"
proof (cases "update_stats_body s p")
  case (Pair s' r)
  with body_malformed_packets [of s p] have "malformed_packets s' = malformed_packets s"
    by simp
  with Pair show ?thesis
    by (cases r) (simp_all add: update_stats_def)
qed

lemma update_stats_packet_count:
  "packet_count (fst (update_stats s p)) = packet_count s + 1"
  using body_packet_count [of s p]
  by (cases "snd (update_stats_body s p)") (simp_all add: update_stats_fst)

lemma update_stats_protocols:
  "sum_list (dict_values (protocols (fst (update_stats s p)))) =
   sum_list (dict_values (protocols s)) + (if faults_before_tally p then 0 else 1)"
  using body_protocols [of s p]
  by (cases "snd (update_stats_body s p)") (simp_all add: update_stats_fst)

lemma process_Cons: "process s (p # ps) = process (fst (update_stats s p)) ps"
  using update_stats_snd [of s p] by (cases "update_stats s p") (simp add: then_do_def)

lemma process_snd: "snd (process s ps) = None"
  by (induction ps arbitrary: s) (simp_all add: process_Cons del: process.simps(2))

lemma process_counts:
  "sum_list (dict_values (protocols (fst (process s ps))))
     + int (length (filter faults_before_tally ps))
     - sum_list (dict_values (protocols s))
   = packet_count (fst (process s ps)) - packet_count s"
proof (induction ps arbitrary: s)
  case Nil
  show ?case by simp
next
  case (Cons p ps)
  show ?case
    using Cons.IH [of "fst (update_stats s p)"]
    by (cases "faults_before_tally p")
       (simp_all add: process_Cons update_stats_packet_count update_stats_protocols
          del: process.simps(2))
qed

subsection \<open>Protocol tally and packet count\<close>

text \<open>
  C2, as the source has it. \<open>update_stats\<close> counts the packet before it reads anything
  from it, and tallies the protocol only after the timestamp, the size and the protocol
  name have been read. For every finite sequence of records processed from
  \<open>initialize_stats\<close>, the sum of the values of \<open>protocols\<close> plus the number of records
  that raised before their protocol tally equals \<open>packet_count\<close>; the sum equals
  \<open>packet_count\<close> exactly when there is no such record.
\<close>

theorem protocol_tally_plus_early_faults:
  "sum_list (dict_values (protocols (fst (process (initialize_stats now) ps))))
     + int (length (filter faults_before_tally ps))
   = packet_count (fst (process (initialize_stats now) ps))"
proof -
  have "protocols (initialize_stats now) = []" and "packet_count (initialize_stats now) = 0"
    by (simp_all add: initialize_stats_def)
  with process_counts [of "initialize_stats now" ps] show ?thesis
    by (simp add: dict_values_def)
qed

lemma faults_udp_unparsable: "faults_before_tally (udp_record Unparsable)"
  by (simp add: faults_before_tally_def udp_record_def read_timestamp_def)

text \<open>
  C2 as the specification states it fails on the stream of one record whose timestamp
  text is not a number: the record is counted, its protocol is not tallied.
\<close>

theorem protocol_tally_counterexample:
  "sum_list (dict_values (protocols (fst (process (initialize_stats (Finite 0))
       [udp_record Unparsable]))))
   \<noteq> packet_count (fst (process (initialize_stats (Finite 0)) [udp_record Unparsable]))"
proof -
  have "protocols (initialize_stats (Finite 0)) = []"
    and "packet_count (initialize_stats (Finite 0)) = 0"
    by (simp_all add: initialize_stats_def)
  moreover have "dict_values ([] :: (string option \<times> int) list) = []"
    by (simp add: dict_values_def)
  ultimately show ?thesis
    by (simp add: process_Cons update_stats_packet_count update_stats_protocols
        faults_udp_unparsable del: process.simps(2))
qed

theorem protocol_tally_plus_early_faults_witness:
  "sum_list (dict_values (protocols (fst (process (initialize_stats (Finite 0))
       [udp_record (Parsed 1), udp_record Unparsable])))) + 1
   = packet_count (fst (process (initialize_stats (Finite 0))
       [udp_record (Parsed 1), udp_record Unparsable]))"
proof -
  have "\<not> faults_before_tally (udp_record (Parsed 1))"
    by (simp add: faults_before_tally_def udp_record_def read_timestamp_def read_protocol_def)
  with protocol_tally_plus_early_faults [of "Finite 0" "[udp_record (Parsed 1), udp_record Unparsable]"]
  show ?thesis by (simp add: faults_udp_unparsable)
qed

subsection \<open>Faults of one record\<close>

text \<open>
  C1, as the source has it. \<open>update_stats\<close> never raises. An exception that reaches its
  handler counts the record as malformed, once, and the rest of the state is what the
  rules had written when the exception was raised: the packet count is already
  incremented and nothing is rolled back. When no exception reaches the handler the
  malformed count is unchanged. No layer rule lets an \<open>AttributeError\<close> out: it handles
  it itself, and the record is not counted as malformed for it.
\<close>

theorem update_stats_absorbs_faults_without_rollback:
  "snd (update_stats s p) = None
   \<and> (\<forall>s' e. update_stats_body s p = (s', Some e) \<longrightarrow>
         fst (update_stats s p) = s'\<lparr> malformed_packets := malformed_packets s + 1 \<rparr>
         \<and> packet_count s' = packet_count s + 1)
   \<and> (\<forall>s'. update_stats_body s p = (s', None) \<longrightarrow>
         fst (update_stats s p) = s' \<and> malformed_packets s' = malformed_packets s)
   \<and> (\<forall>t. snd (analyze_layers s p t) \<noteq> Some AttributeError)"
proof (intro conjI allI impI)
  show "snd (update_stats s p) = None"
    by (rule update_stats_snd)
next
  fix s' e
  assume h: "update_stats_body s p = (s', Some e)"
  show "fst (update_stats s p) = s'\<lparr> malformed_packets := malformed_packets s + 1 \<rparr>"
    by (simp only: update_stats_fst h snd_conv fst_conv option.case)
  from body_packet_count [of s p] show "packet_count s' = packet_count s + 1"
    by (simp only: h fst_conv)
next
  fix s'
  assume h: "update_stats_body s p = (s', None)"
  show "fst (update_stats s p) = s'"
    by (simp only: update_stats_fst h snd_conv fst_conv option.case)
  from body_malformed_packets [of s p] show "malformed_packets s' = malformed_packets s"
    by (simp only: h fst_conv)
next
  fix t
  show "snd (analyze_layers s p t) \<noteq> Some AttributeError"
    by (rule layers_no_attribute_error)
qed

lemma body_unparsable:
  "update_stats_body s (udp_record Unparsable)
   = (s\<lparr> packet_count := packet_count s + 1 \<rparr>, Some ValueError)"
  by (simp add: update_stats_body_def read_timestamp_def udp_record_def)

text \<open>
  C1 as the specification states it, that every counter other than \<open>malformed_packets\<close>
  is left as it was, fails on a record whose timestamp text is not a number: the
  exception is caught and counted, and \<open>packet_count\<close> has changed.
\<close>

theorem update_stats_rollback_counterexample:
  "snd (update_stats_body (initialize_stats (Finite 0)) (udp_record Unparsable)) = Some ValueError
   \<and> malformed_packets (fst (update_stats (initialize_stats (Finite 0)) (udp_record Unparsable)))
       = malformed_packets (initialize_stats (Finite 0)) + 1
   \<and> packet_count (fst (update_stats (initialize_stats (Finite 0)) (udp_record Unparsable)))
       \<noteq> packet_count (initialize_stats (Finite 0))"
  by (simp add: update_stats_fst body_unparsable)

theorem update_stats_absorbs_faults_witness:
  "snd (update_stats (initialize_stats (Finite 0)) (udp_record Unparsable)) = None
   \<and> malformed_packets (fst (update_stats (initialize_stats (Finite 0)) (udp_record Unparsable)))
       = 1
   \<and> packet_count (fst (update_stats (initialize_stats (Finite 0)) (udp_record Unparsable)))
       = 1"
proof -
  let ?s = "initialize_stats (Finite 0)"
  let ?p = "udp_record Unparsable"
  have b: "update_stats_body ?s ?p
        = (?s\<lparr> packet_count := packet_count ?s + 1 \<rparr>, Some ValueError)"
    by (rule body_unparsable)
  from update_stats_absorbs_faults_without_rollback [of ?s ?p] have 1: "snd (update_stats ?s ?p) = None"
    and 2: "\<forall>s' e. update_stats_body ?s ?p = (s', Some e) \<longrightarrow>
         fst (update_stats ?s ?p) = s'\<lparr> malformed_packets := malformed_packets ?s + 1 \<rparr>
         \<and> packet_count s' = packet_count ?s + 1"
    by blast+
  from 2 b have 3: "fst (update_stats ?s ?p)
      = ?s\<lparr> packet_count := packet_count ?s + 1,
            malformed_packets := malformed_packets ?s + 1 \<rparr>"
    by blast
  have "packet_count ?s = 0" "malformed_packets ?s = 0"
    by (simp_all add: initialize_stats_def)
  with 1 3 show ?thesis
    by simp
qed

subsection \<open>Conversations\<close>

lemma conv_kept_except:
  "conversations (fst r) = c \<Longrightarrow> conversations (fst (except_attribute_error r)) = c"
  by (auto simp: except_attribute_error_def split: prod.splits option.splits py_error.splits)

lemma conv_tcp: "conversations (fst (analyze_tcp_layer s p t)) = conversations s"
  unfolding analyze_tcp_layer_def
  by (rule conv_kept_except) (auto simp: Let_def split: option.splits)

lemma conv_udp: "conversations (fst (analyze_udp_layer s p t)) = conversations s"
  unfolding analyze_udp_layer_def
  by (rule conv_kept_except) (auto simp: Let_def split: option.splits)

lemma conv_http: "conversations (fst (analyze_http_layer s p)) = conversations s"
  unfolding analyze_http_layer_def
  by (rule conv_kept_except) (auto simp: Let_def split: option.splits)

lemma conv_tls: "conversations (fst (analyze_tls_layer s p)) = conversations s"
  unfolding analyze_tls_layer_def
  by (rule conv_kept_except) (auto simp: Let_def split: option.splits)

lemma conv_dns: "conversations (fst (analyze_dns_layer s p t)) = conversations s"
  unfolding analyze_dns_layer_def
  by (rule conv_kept_except) (auto simp: then_do_def Let_def split: option.splits)

lemma conv_dhcp: "conversations (fst (analyze_dhcp_layer s p)) = conversations s"
  unfolding analyze_dhcp_layer_def
  by (rule conv_kept_except) (auto simp: Let_def split: option.splits)

lemma conv_ip:
  "conversations s = DefaultDict d \<Longrightarrow>
   conversations (fst (analyze_ip_layer s p t)) = DefaultDict (tally_conversation d p)"
  unfolding analyze_ip_layer_def tally_conversation_def
  by (rule conv_kept_except) (auto simp: Let_def split: option.splits)

lemma then_do_keeps_conv:
  "(\<And>s'. conversations (fst (f s')) = conversations s') \<Longrightarrow>
   conversations (fst (then_do r f)) = conversations (fst r)"
  by (cases r) (auto simp: then_do_def split: option.splits)

lemma conv_layers:
  assumes "conversations s = DefaultDict d"
  shows "conversations (fst (analyze_layers s p t)) = DefaultDict (tally_conversation d p)"
proof -
  have first: "conversations (fst (if ip p \<noteq> None then analyze_ip_layer s p t else (s, None)))
      = DefaultDict (tally_conversation d p)"
    using assms by (auto simp: conv_ip) (simp add: tally_conversation_def)
  show ?thesis
    unfolding analyze_layers_def
  proof (subst then_do_keeps_conv)
    show "conversations (fst (if ip p \<noteq> None then analyze_ip_layer s p t else (s, None)))
      = DefaultDict (tally_conversation d p)"
      by (rule first)
  qed (simp add: then_do_keeps_conv conv_tcp conv_udp conv_http conv_tls conv_dns conv_dhcp)
qed

lemma conv_body:
  assumes "conversations s = DefaultDict d"
  shows "conversations (fst (update_stats_body s p))
         = DefaultDict (if faults_before_tally p then d else tally_conversation d p)"
proof (cases "read_timestamp p")
  case (Inl e)
  with assms show ?thesis
    by (simp add: update_stats_body_def faults_before_tally_def)
next
  case (Inr t)
  have "conversations (fst (then_do (tally_size s3 p t) (\<lambda>s4.
          then_do (tally_protocol s4 p) (\<lambda>s5. analyze_layers s5 p t))))
        = DefaultDict (if length_p p = Unparsable \<or> isl (read_protocol p) then d
                       else tally_conversation d p)"
    if "conversations s3 = DefaultDict d" for s3
    using that
    by (auto simp: then_do_def tally_size_def tally_protocol_def conv_layers
        split: attr.splits sum.splits)
  with Inr assms show ?thesis
    by (simp add: update_stats_body_def faults_before_tally_def Let_def)
qed

lemma conv_update_stats:
  assumes "conversations s = DefaultDict d"
  shows "conversations (fst (update_stats s p))
         = DefaultDict (if faults_before_tally p then d else tally_conversation d p)"
  using conv_body [OF assms, of p]
  by (cases "snd (update_stats_body s p)") (simp_all add: update_stats_fst)

lemma conv_process:
  "conversations s = DefaultDict d \<Longrightarrow>
   conversations (fst (process s ps)) = DefaultDict (tally_conversations d ps)"
  by (induction ps arbitrary: s d)
     (simp_all add: process_Cons conv_update_stats del: process.simps(2))

lemma in_dict_set: "kv \<in> set (dict_set d k v) \<Longrightarrow> fst kv = k \<or> kv \<in> set d"
  by (induction d) (auto split: if_splits)

lemma distinct_dict_set: "distinct (map fst d) \<Longrightarrow> distinct (map fst (dict_set d k v))"
proof (induction d)
  case Nil
  then show ?case by simp
next
  case (Cons kv d)
  obtain k' v' where kv: "kv = (k', v')" by (cases kv)
  from Cons.prems kv have notin: "k' \<notin> fst ` set d" and dist: "distinct (map fst d)"
    by auto
  show ?case
  proof (cases "k' = k")
    case True
    with kv notin dist show ?thesis by simp
  next
    case False
    have "k' \<notin> fst ` set (dict_set d k v)"
    proof
      assume "k' \<in> fst ` set (dict_set d k v)"
      then obtain x where "x \<in> set (dict_set d k v)" and "fst x = k'" by auto
      with in_dict_set [of x d k v] False notin show False by auto
    qed
    with False kv Cons.IH [OF dist] show ?thesis by simp
  qed
qed

lemma join_underscore_inject:
  "CHR ''_'' \<notin> set a \<Longrightarrow> CHR ''_'' \<notin> set a' \<Longrightarrow>
   a @ ''_'' @ b = a' @ ''_'' @ b' \<Longrightarrow> a = a' \<and> b = b'"
proof (induction a arbitrary: a')
  case Nil
  then show ?case by (cases a') auto
next
  case (Cons x a)
  then show ?case by (cases a') auto
qed

lemma new_key_inject_plain:
  "plain_key k \<Longrightarrow> plain_key k' \<Longrightarrow> new_key k = new_key k' \<Longrightarrow> k = k'"
proof (cases k)
  case (StrKey x)
  then show "plain_key k \<Longrightarrow> k = k'" by simp
next
  case k: (TupleKey a b)
  show "plain_key k \<Longrightarrow> plain_key k' \<Longrightarrow> new_key k = new_key k' \<Longrightarrow> k = k'"
  proof (cases k')
    case (StrKey x)
    then show "plain_key k' \<Longrightarrow> k = k'" by simp
  next
    case k': (TupleKey a' b')
    assume "plain_key k" "plain_key k'" "new_key k = new_key k'"
    with k k' have "CHR ''_'' \<notin> set a" "CHR ''_'' \<notin> set a'"
      and "a @ ''_'' @ b = a' @ ''_'' @ b'" by simp_all
    then have "a = a' \<and> b = b'" by (rule join_underscore_inject)
    with k k' show "k = k'" by simp
  qed
qed

lemma plain_keys_no_collision:
  assumes "distinct (map fst d)" and "\<forall>k \<in> set (map fst d). plain_key k"
  shows "distinct (map (\<lambda>kv. new_key (fst kv)) d)"
proof -
  have "inj_on new_key (set (map fst d))"
    using assms(2) by (auto intro!: inj_onI dest: new_key_inject_plain)
  with assms(1) have "distinct (map new_key (map fst d))"
    by (simp only: distinct_map)
  then show ?thesis by (simp add: comp_def)
qed

lemma tally_conversation_plain:
  assumes "distinct (map fst d)" and "\<forall>k \<in> set (map fst d). plain_key k"
    and "underscore_free_addresses p"
  shows "distinct (map fst (tally_conversation d p))
     \<and> (\<forall>k \<in> set (map fst (tally_conversation d p)). plain_key k)"
proof (cases "ip p")
  case None
  with assms show ?thesis by (simp add: tally_conversation_def)
next
  case (Some l)
  show ?thesis
  proof (cases "src l")
    case None
    with Some assms show ?thesis by (simp add: tally_conversation_def)
  next
    case a: (Some a)
    show ?thesis
    proof (cases "dst l")
      case None
      with Some a assms show ?thesis by (simp add: tally_conversation_def)
    next
      case b: (Some b)
      from assms(3) Some a b have "plain_key (TupleKey a b)"
        by (simp add: underscore_free_addresses_def)
      moreover have "tally_conversation d p = dict_incr d (TupleKey a b)"
        using Some a b by (simp add: tally_conversation_def)
      moreover have "plain_key (fst x)" if "x \<in> set (dict_incr d (TupleKey a b))" for x
      proof -
        from that have "fst x = TupleKey a b \<or> x \<in> set d"
          unfolding dict_incr_def by (rule in_dict_set)
        with assms(2) \<open>plain_key (TupleKey a b)\<close> show ?thesis by auto
      qed
      moreover have "distinct (map fst (dict_incr d (TupleKey a b)))"
        using assms(1) by (simp add: dict_incr_def distinct_dict_set)
      ultimately show ?thesis by simp

    qed
  qed
qed

lemma tally_conversations_plain:
  "distinct (map fst d) \<Longrightarrow> \<forall>k \<in> set (map fst d). plain_key k \<Longrightarrow>
   \<forall>p \<in> set ps. underscore_free_addresses p \<Longrightarrow>
   distinct (map (\<lambda>kv. new_key (fst kv)) (tally_conversations d ps))"
proof (induction ps arbitrary: d)
  case Nil
  then show ?case by (simp add: plain_keys_no_collision)
next
  case (Cons p ps)
  show ?case
  proof (cases "faults_before_tally p")
    case True
    with Cons show ?thesis by simp
  next
    case False
    have "underscore_free_addresses p" using Cons.prems(3) by simp
    from tally_conversation_plain [OF Cons.prems(1) Cons.prems(2) this]
    have "distinct (map (\<lambda>kv. new_key (fst kv))
        (tally_conversations (tally_conversation d p) ps))"
      using Cons.IH [of "tally_conversation d p"] Cons.prems(3) by simp
    with False show ?thesis by simp
  qed
qed

lemma conv_process_initial:
  "conversations (fst (process (initialize_stats now) ps))
   = DefaultDict (tally_conversations [] ps)"
proof -
  have "conversations (initialize_stats now) = DefaultDict []"
    by (simp add: initialize_stats_def)
  then show ?thesis by (rule conv_process)
qed

lemma process_no_collision:
  assumes "\<forall>p \<in> set ps. underscore_free_addresses p"
  shows "distinct (map (\<lambda>kv. new_key (fst kv))
           (conv_items (conversations (fst (process (initialize_stats now) ps)))))"
  using tally_conversations_plain [of "[]" ps] assms
  by (simp add: conv_process_initial)

text \<open>
  C10, as the source has it. \<open>_cleanup_stats\<close> writes every entry of \<open>conversations\<close> into
  a new dictionary, a tuple key \<open>(src, dst)\<close> as the string \<open>src_dst\<close> and any other key as
  it is, by plain assignment. After it no tuple key is left. For a snapshot built by
  processing records whose IP addresses contain no underscore, every entry is found
  under \<open>src_dst\<close> with its count. For any snapshot in which no two keys are written to
  the same string, an entry with a tuple key is found under \<open>src_dst\<close> and an entry
  with a string key under that string, each with its count.
\<close>

theorem cleanup_conversations_string_keys:
  "((\<forall>p \<in> set ps. underscore_free_addresses p) \<longrightarrow>
      (\<forall>a b v. (TupleKey a b, v)
           \<in> set (conv_items (conversations (fst (process (initialize_stats now) ps)))) \<longrightarrow>
         dict_get (conv_items (conversations
             (cleanup_stats (fst (process (initialize_stats now) ps)))))
           (StrKey (a @ ''_'' @ b)) = Some v))
   \<and> (distinct (map (\<lambda>kv. new_key (fst kv)) (conv_items (conversations s))) \<longrightarrow>
        (\<forall>a b v. (TupleKey a b, v) \<in> set (conv_items (conversations s)) \<longrightarrow>
           dict_get (conv_items (conversations (cleanup_stats s))) (StrKey (a @ ''_'' @ b))
             = Some v)
        \<and> (\<forall>k v. (StrKey k, v) \<in> set (conv_items (conversations s)) \<longrightarrow>
           dict_get (conv_items (conversations (cleanup_stats s))) (StrKey k) = Some v))
   \<and> (\<forall>a b. dict_get (conv_items (conversations (cleanup_stats s))) (TupleKey a b) = None)"
proof -
  have get: "dict_get (conv_items (conversations (cleanup_stats s'))) (new_key k) = Some v"
    if "distinct (map (\<lambda>kv. new_key (fst kv)) (conv_items (conversations s')))"
      and "(k, v) \<in> set (conv_items (conversations s'))" for s' k v
    using that by (simp add: cleanup_stats_def dict_get_convert)
  have tuple: "dict_get (conv_items (conversations (cleanup_stats s')))
        (StrKey (a @ ''_'' @ b)) = Some v"
    if "distinct (map (\<lambda>kv. new_key (fst kv)) (conv_items (conversations s')))"
      and "(TupleKey a b, v) \<in> set (conv_items (conversations s'))" for s' a b v
    using get [OF that] by simp
  have str: "dict_get (conv_items (conversations (cleanup_stats s'))) (StrKey k) = Some v"
    if "distinct (map (\<lambda>kv. new_key (fst kv)) (conv_items (conversations s')))"
      and "(StrKey k, v) \<in> set (conv_items (conversations s'))" for s' k v
    using get [OF that] by simp
  have none: "dict_get (conv_items (conversations (cleanup_stats s))) (TupleKey a b) = None"
    for a b
  proof -
    have "TupleKey a b \<notin> (\<lambda>kv. new_key (fst kv)) ` set (conv_items (conversations s))"
      by (auto simp: new_key_not_tuple)
    then show ?thesis
      by (simp add: cleanup_stats_def dict_get_convert_notin)
  qed
  have built: "dict_get (conv_items (conversations
             (cleanup_stats (fst (process (initialize_stats now) ps)))))
           (StrKey (a @ ''_'' @ b)) = Some v"
    if "\<forall>p \<in> set ps. underscore_free_addresses p"
      and "(TupleKey a b, v)
           \<in> set (conv_items (conversations (fst (process (initialize_stats now) ps))))"
    for a b v
    using tuple [OF process_no_collision [OF that(1)] that(2)] .
  from built tuple str none show ?thesis by blast
qed

lemma conversations_cleanup:
  "conversations (cleanup_stats s)
   = PlainDict (convert_conversations [] (conv_items (conversations s)))"
  by (simp add: cleanup_stats_def)

lemma tally_example_collision:
  "tally_conversations [] [ip_record ''a_b'' ''c'', ip_record ''a'' ''b_c'', ip_record ''a'' ''b_c'']
   = [(TupleKey ''a_b'' ''c'', 1), (TupleKey ''a'' ''b_c'', 2)]"
  by (simp add: faults_before_tally_def ip_record_def read_timestamp_def read_protocol_def
      tally_conversation_def dict_incr_def)

text \<open>
  C10 as stated, for every entry, fails when two observed tuples are written to the same
  string: of the records \<open>(a_b, c)\<close>, \<open>(a, b_c)\<close>, \<open>(a, b_c)\<close> the first is tallied once,
  and after finalization \<open>a_b_c\<close> holds the count 2 of the other tuple.
\<close>

theorem cleanup_conversations_collision_counterexample:
  "(TupleKey ''a_b'' ''c'', 1) \<in> set (conv_items (conversations
       (fst (process (initialize_stats (Finite 0))
          [ip_record ''a_b'' ''c'', ip_record ''a'' ''b_c'', ip_record ''a'' ''b_c'']))))
   \<and> dict_get (conv_items (conversations (cleanup_stats
       (fst (process (initialize_stats (Finite 0))
          [ip_record ''a_b'' ''c'', ip_record ''a'' ''b_c'', ip_record ''a'' ''b_c''])))))
       (StrKey ''a_b_c'') = Some 2"
  unfolding conversations_cleanup conv_process_initial tally_example_collision
  by simp

lemma tally_example_plain:
  "tally_conversations []
     [ip_record ''10.0.0.1'' ''10.0.0.2'', ip_record ''10.0.0.2'' ''10.0.0.1'',
      ip_record ''10.0.0.1'' ''10.0.0.2'']
   = [(TupleKey ''10.0.0.1'' ''10.0.0.2'', 2), (TupleKey ''10.0.0.2'' ''10.0.0.1'', 1)]"
  by (simp add: faults_before_tally_def ip_record_def read_timestamp_def read_protocol_def
      tally_conversation_def dict_incr_def)

theorem cleanup_conversations_string_keys_witness:
  "dict_get (conv_items (conversations (cleanup_stats
       (fst (process (initialize_stats (Finite 0))
          [ip_record ''10.0.0.1'' ''10.0.0.2'', ip_record ''10.0.0.2'' ''10.0.0.1'',
           ip_record ''10.0.0.1'' ''10.0.0.2''])))))
     (StrKey ''10.0.0.1_10.0.0.2'') = Some 2"
proof -
  let ?ps = "[ip_record ''10.0.0.1'' ''10.0.0.2'', ip_record ''10.0.0.2'' ''10.0.0.1'',
           ip_record ''10.0.0.1'' ''10.0.0.2'']"
  have h: "\<forall>p \<in> set ?ps. underscore_free_addresses p"
    by (simp add: underscore_free_addresses_def ip_record_def)
  have m: "(TupleKey ''10.0.0.1'' ''10.0.0.2'', 2)
      \<in> set (conv_items (conversations (fst (process (initialize_stats (Finite 0)) ?ps))))"
    unfolding conv_process_initial tally_example_plain by simp
  from cleanup_conversations_string_keys [of ?ps "Finite 0"] h m
  have "dict_get (conv_items (conversations
             (cleanup_stats (fst (process (initialize_stats (Finite 0)) ?ps)))))
           (StrKey (''10.0.0.1'' @ ''_'' @ ''10.0.0.2'')) = Some 2"
    by blast
  then show ?thesis by simp
qed

subsection \<open>UDP jitter\<close>

lemma udp_record_body:
  assumes "prev_udp_time s = Some prev" and "conversations s = DefaultDict d"
  shows "udp_jitter (fst (update_stats_body s (udp_record (Parsed q)))) =
           (case dict_get prev (''10.0.0.1'', ''10.0.0.2'', ''5000'', ''6000'') of
              None \<Rightarrow> udp_jitter s
            | Some t0 \<Rightarrow> udp_jitter s @ [fsub (to_double q) t0])"
    and "prev_udp_time (fst (update_stats_body s (udp_record (Parsed q)))) =
           Some (dict_set prev (''10.0.0.1'', ''10.0.0.2'', ''5000'', ''6000'') (to_double q))"
    and "\<exists>d'. conversations (fst (update_stats_body s (udp_record (Parsed q)))) = DefaultDict d'"
    and "snd (update_stats_body s (udp_record (Parsed q))) = None"
  using assms
  by (simp_all add: update_stats_body_def read_timestamp_def
      tally_size_def tally_protocol_def read_protocol_def analyze_layers_def analyze_ip_layer_def
      analyze_udp_layer_def except_attribute_error_def udp_record_def then_do_def Let_def
      split: option.splits)


lemma udp_record_step:
  assumes "prev_udp_time s = Some prev" and "conversations s = DefaultDict d"
  shows "udp_jitter (fst (update_stats s (udp_record (Parsed q)))) =
           (case dict_get prev (''10.0.0.1'', ''10.0.0.2'', ''5000'', ''6000'') of
              None \<Rightarrow> udp_jitter s
            | Some t0 \<Rightarrow> udp_jitter s @ [fsub (to_double q) t0])"
    and "prev_udp_time (fst (update_stats s (udp_record (Parsed q)))) =
           Some (dict_set prev (''10.0.0.1'', ''10.0.0.2'', ''5000'', ''6000'') (to_double q))"
    and "\<exists>d'. conversations (fst (update_stats s (udp_record (Parsed q)))) = DefaultDict d'"
  using udp_record_body [OF assms, of q]
  by (simp_all add: update_stats_fst)

lemma to_double_0: "to_double 0 = Finite 0"
  by (simp add: to_double_def)

lemma to_double_1: "to_double 1 = Finite 1"
  by code_simp

lemma to_double_13_10: "to_double (13 / 10) = Finite (5854679515581645 / 4503599627370496)"
  by code_simp

lemma to_double_3_10: "to_double (3 / 10) = Finite (5404319552844595 / 18014398509481984)"
  by code_simp

lemma fsub_1_0: "fsub (Finite 1) (Finite 0) = Finite 1"
  by code_simp

lemma fsub_13_10_1:
  "fsub (Finite (5854679515581645 / 4503599627370496)) (Finite 1)
   = Finite (5404319552844596 / 18014398509481984)"
  by code_simp

lemma udp_example_jitter:
  "udp_jitter (fst (process (initialize_stats now)
      [udp_record (Parsed 0), udp_record (Parsed 1), udp_record (Parsed (13 / 10))]))
   = [Finite 1, Finite (5404319552844596 / 18014398509481984)]"
proof -
  let ?k = "(''10.0.0.1'', ''10.0.0.2'', ''5000'', ''6000'')"
  let ?s0 = "initialize_stats now"
  let ?s1 = "fst (update_stats ?s0 (udp_record (Parsed 0)))"
  let ?s2 = "fst (update_stats ?s1 (udp_record (Parsed 1)))"
  let ?s3 = "fst (update_stats ?s2 (udp_record (Parsed (13 / 10))))"
  have p0: "prev_udp_time ?s0 = Some []" and c0: "conversations ?s0 = DefaultDict []"
    and j0: "udp_jitter ?s0 = []"
    by (simp_all add: initialize_stats_def)
  from udp_record_step [OF p0 c0, of 0]
  have j1: "udp_jitter ?s1 = []" and p1: "prev_udp_time ?s1 = Some [(?k, Finite 0)]"
    and "\<exists>d'. conversations ?s1 = DefaultDict d'"
    by (simp_all add: j0 to_double_0)
  then obtain d1 where c1: "conversations ?s1 = DefaultDict d1" by blast
  from udp_record_step [OF p1 c1, of 1]
  have j2: "udp_jitter ?s2 = [Finite 1]" and p2: "prev_udp_time ?s2 = Some [(?k, Finite 1)]"
    and "\<exists>d'. conversations ?s2 = DefaultDict d'"
    by (simp_all add: j1 to_double_1 fsub_1_0)
  then obtain d2 where c2: "conversations ?s2 = DefaultDict d2" by blast
  from udp_record_step(1) [OF p2 c2, of "13 / 10"]
  have "udp_jitter ?s3 = [Finite 1, Finite (5404319552844596 / 18014398509481984)]"
    by (simp add: j2 to_double_13_10 fsub_13_10_1)
  then show ?thesis
    by (simp add: process_Cons del: process.simps(2))
qed

text \<open>
  C7, as the source has it. For a record with an IP layer and a UDP layer that give the
  flow key \<open>(src, dst, srcport, dstport)\<close>, on a state that still has its table
  \<open>prev_udp_time\<close>, the UDP rule raises nothing, appends the float difference of the
  current and the stored timestamp to \<open>udp_jitter\<close> when the key has a stored timestamp,
  and in all cases stores the current timestamp under the key. Three records of one flow
  at 0, 1.0 and 1.3 give \<open>udp_jitter = [1.0, 1.3 - 1.0]\<close>, and in binary64 the difference
  \<open>1.3 - 1.0\<close> is \<open>5404319552844596 / 2^54\<close>, printed 0.30000000000000004.
\<close>

theorem udp_jitter_rule_and_example:
  "(\<forall>l a b u sp dp prev.
      ip p = Some l \<and> src l = Some a \<and> dst l = Some b \<and> udp p = Some u
      \<and> srcport u = Some sp \<and> dstport u = Some dp \<and> prev_udp_time s = Some prev \<longrightarrow>
        snd (analyze_udp_layer s p t) = None
        \<and> udp_jitter (fst (analyze_udp_layer s p t)) =
            (case dict_get prev (a, b, sp, dp) of
               None \<Rightarrow> udp_jitter s
             | Some t0 \<Rightarrow> udp_jitter s @ [fsub t t0])
        \<and> prev_udp_time (fst (analyze_udp_layer s p t)) = Some (dict_set prev (a, b, sp, dp) t)
        \<and> dict_get (dict_set prev (a, b, sp, dp) t) (a, b, sp, dp) = Some t)
   \<and> udp_jitter (fst (process (initialize_stats now)
        [udp_record (Parsed 0), udp_record (Parsed 1), udp_record (Parsed (13 / 10))]))
      = [Finite 1, Finite (5404319552844596 / 18014398509481984)]"
proof -
  have "snd (analyze_udp_layer s p t) = None
        \<and> udp_jitter (fst (analyze_udp_layer s p t)) =
            (case dict_get prev (a, b, sp, dp) of
               None \<Rightarrow> udp_jitter s
             | Some t0 \<Rightarrow> udp_jitter s @ [fsub t t0])
        \<and> prev_udp_time (fst (analyze_udp_layer s p t)) = Some (dict_set prev (a, b, sp, dp) t)
        \<and> dict_get (dict_set prev (a, b, sp, dp) t) (a, b, sp, dp) = Some t"
    if "ip p = Some l" "src l = Some a" "dst l = Some b" "udp p = Some u"
      "srcport u = Some sp" "dstport u = Some dp" "prev_udp_time s = Some prev"
    for l a b u sp dp prev
    using that
    by (simp add: analyze_udp_layer_def except_attribute_error_def Let_def dict_get_dict_set
        split: option.splits)
  with udp_example_jitter [of now] show ?thesis by blast
qed

text \<open>
  C7 as the specification states it, with the second sample equal to the float 0.3
  (which is \<open>5404319552844595 / 2^54\<close>), fails on these three records.
\<close>

theorem udp_jitter_example_counterexample:
  "udp_jitter (fst (process (initialize_stats (Finite 0))
      [udp_record (Parsed 0), udp_record (Parsed 1), udp_record (Parsed (13 / 10))]))
   \<noteq> [to_double 1, to_double (3 / 10)]"
  by (simp add: udp_example_jitter to_double_1 to_double_3_10 del: process.simps)

theorem udp_jitter_rule_witness:
  "prev_udp_time (fst (analyze_udp_layer (initialize_stats (Finite 0))
       (udp_record (Parsed 1)) (Finite 1)))
   = Some [((''10.0.0.1'', ''10.0.0.2'', ''5000'', ''6000''), Finite 1)]"
proof -
  let ?s = "initialize_stats (Finite 0)"
  let ?p = "udp_record (Parsed 1)"
  have "ip ?p = Some \<lparr> src = Some ''10.0.0.1'', dst = Some ''10.0.0.2'' \<rparr>"
    and "udp ?p = Some \<lparr> srcport = Some ''5000'', dstport = Some ''6000'' \<rparr>"
    and "prev_udp_time ?s = Some []"
    by (simp_all add: udp_record_def initialize_stats_def)
  with udp_jitter_rule_and_example [of ?p ?s "Finite 1" "Finite 0"]
  have "prev_udp_time (fst (analyze_udp_layer ?s ?p (Finite 1)))
        = Some (dict_set [] (''10.0.0.1'', ''10.0.0.2'', ''5000'', ''6000'') (Finite 1))"
    by simp
  then show ?thesis by simp
qed

subsection \<open>DNS round trips\<close>

lemma dns_record_body:
  "snd (update_stats_body s (dns_record q fr i ty)) = None"
  "fr = ''0'' \<Longrightarrow> pending_dns_queries (fst (update_stats_body s (dns_record q fr i (Some y))))
     = dict_set (pending_dns_queries s) i (to_double q)"
  "fr = ''0'' \<Longrightarrow> dns_response_times (fst (update_stats_body s (dns_record q fr i (Some y))))
     = dns_response_times s"
  "fr = ''1'' \<Longrightarrow> dict_get (pending_dns_queries s) i = Some t0 \<Longrightarrow>
     pending_dns_queries (fst (update_stats_body s (dns_record q fr i (Some y))))
     = dict_pop (pending_dns_queries s) i"
  "fr = ''1'' \<Longrightarrow> dict_get (pending_dns_queries s) i = Some t0 \<Longrightarrow>
     dns_response_times (fst (update_stats_body s (dns_record q fr i (Some y))))
     = dns_response_times s @ [fsub (to_double q) t0]"
  "pending_dns_queries (fst (update_stats_body s (dns_record q ''0'' i None)))
     = pending_dns_queries s"
  by (simp_all add: update_stats_body_def read_timestamp_def
      tally_size_def tally_protocol_def read_protocol_def analyze_layers_def
      analyze_dns_layer_def except_attribute_error_def dns_record_def then_do_def Let_def
      split: option.splits)


lemma dns_record_step:
  "pending_dns_queries (fst (update_stats s (dns_record q ''0'' i (Some y))))
     = dict_set (pending_dns_queries s) i (to_double q)"
  "dns_response_times (fst (update_stats s (dns_record q ''0'' i (Some y))))
     = dns_response_times s"
  "dict_get (pending_dns_queries s) i = Some t0 \<Longrightarrow>
     pending_dns_queries (fst (update_stats s (dns_record q ''1'' i (Some y))))
     = dict_pop (pending_dns_queries s) i"
  "dict_get (pending_dns_queries s) i = Some t0 \<Longrightarrow>
     dns_response_times (fst (update_stats s (dns_record q ''1'' i (Some y))))
     = dns_response_times s @ [fsub (to_double q) t0]"
  "pending_dns_queries (fst (update_stats s (dns_record q ''0'' i None)))
     = pending_dns_queries s"
  by (simp_all add: update_stats_fst dns_record_body)

lemma dict_get_dict_pop: "dict_get (dict_pop d k) k = None"
  by (induction d) (auto simp: dict_pop_def)

lemma to_double_10: "to_double 10 = Finite 10"
  by code_simp

lemma to_double_41_4: "to_double (41 / 4) = Finite (41 / 4)"
  by code_simp

lemma to_double_1_4: "to_double (1 / 4) = Finite (1 / 4)"
  by code_simp

lemma fsub_41_4_10: "fsub (Finite (41 / 4)) (Finite 10) = Finite (1 / 4)"
  by code_simp

lemma dns_example:
  "dns_response_times (fst (process (initialize_stats now)
      [dns_record 10 ''0'' ''42'' (Some ''1''), dns_record (41 / 4) ''1'' ''42'' (Some ''1'')]))
   = [Finite (1 / 4)]"
  "dict_get (pending_dns_queries (fst (process (initialize_stats now)
      [dns_record 10 ''0'' ''42'' (Some ''1''), dns_record (41 / 4) ''1'' ''42'' (Some ''1'')])))
     ''42'' = None"
proof -
  let ?s0 = "initialize_stats now"
  let ?s1 = "fst (update_stats ?s0 (dns_record 10 ''0'' ''42'' (Some ''1'')))"
  let ?s2 = "fst (update_stats ?s1 (dns_record (41 / 4) ''1'' ''42'' (Some ''1'')))"
  have "pending_dns_queries ?s0 = []" and "dns_response_times ?s0 = []"
    by (simp_all add: initialize_stats_def)
  then have q1: "pending_dns_queries ?s1 = [(''42'', Finite 10)]"
    and r1: "dns_response_times ?s1 = []"
    by (simp_all add: dns_record_step to_double_10)
  then have g: "dict_get (pending_dns_queries ?s1) ''42'' = Some (Finite 10)"
    by simp
  have "dns_response_times ?s2 = [Finite (1 / 4)]"
    by (simp add: dns_record_step(4) [OF g] r1 to_double_41_4 fsub_41_4_10)
  moreover have "dict_get (pending_dns_queries ?s2) ''42'' = None"
    by (simp only: dns_record_step(3) [OF g] dict_get_dict_pop)
  ultimately show
    "dns_response_times (fst (process (initialize_stats now)
      [dns_record 10 ''0'' ''42'' (Some ''1''), dns_record (41 / 4) ''1'' ''42'' (Some ''1'')]))
     = [Finite (1 / 4)]"
    "dict_get (pending_dns_queries (fst (process (initialize_stats now)
      [dns_record 10 ''0'' ''42'' (Some ''1''), dns_record (41 / 4) ''1'' ''42'' (Some ''1'')])))
     ''42'' = None"
    by (simp_all add: process_Cons del: process.simps(2))
qed

text \<open>
  C8, as the source has it. The DNS rule tallies the query name and the query type before
  it comes to the timing: a record that has \<open>qry_name\<close> and no \<open>qry_type\<close> raises
  \<open>AttributeError\<close> there, and the rule ends. For a query record that has \<open>qry_type\<close>
  whenever it has \<open>qry_name\<close>, the rule stores the timestamp under the transaction id,
  over what was stored. For such a response record whose transaction id is pending, it
  appends the float difference of the two timestamps to \<open>dns_response_times\<close> and
  removes the id from the pending table. A query with id 42 at 10.0 and a response with
  id 42 at 10.25 give \<open>dns_response_times = [0.25]\<close>, and 42 is no longer pending.
\<close>

theorem dns_round_trip_rule_and_example:
  "(\<forall>d i. dns p = Some d \<and> flags_response d = Some ''0'' \<and> dns_id d = Some i
        \<and> (qry_name d = None \<or> (\<exists>y. qry_type d = Some y)) \<longrightarrow>
      snd (analyze_dns_layer s p t) = None
      \<and> pending_dns_queries (fst (analyze_dns_layer s p t))
          = dict_set (pending_dns_queries s) i t
      \<and> dict_get (dict_set (pending_dns_queries s) i t) i = Some t
      \<and> dns_response_times (fst (analyze_dns_layer s p t)) = dns_response_times s)
   \<and> (\<forall>d i t0. dns p = Some d \<and> flags_response d = Some ''1'' \<and> dns_id d = Some i
        \<and> (qry_name d = None \<or> (\<exists>y. qry_type d = Some y))
        \<and> dict_get (pending_dns_queries s) i = Some t0 \<longrightarrow>
      snd (analyze_dns_layer s p t) = None
      \<and> dns_response_times (fst (analyze_dns_layer s p t))
          = dns_response_times s @ [fsub t t0]
      \<and> pending_dns_queries (fst (analyze_dns_layer s p t))
          = dict_pop (pending_dns_queries s) i
      \<and> dict_get (dict_pop (pending_dns_queries s) i) i = None)
   \<and> dns_response_times (fst (process (initialize_stats now)
        [dns_record 10 ''0'' ''42'' (Some ''1''), dns_record (41 / 4) ''1'' ''42'' (Some ''1'')]))
      = [to_double (1 / 4)]
   \<and> dict_get (pending_dns_queries (fst (process (initialize_stats now)
        [dns_record 10 ''0'' ''42'' (Some ''1''), dns_record (41 / 4) ''1'' ''42'' (Some ''1'')])))
        ''42'' = None"
proof -
  have query: "snd (analyze_dns_layer s p t) = None
      \<and> pending_dns_queries (fst (analyze_dns_layer s p t))
          = dict_set (pending_dns_queries s) i t
      \<and> dict_get (dict_set (pending_dns_queries s) i t) i = Some t
      \<and> dns_response_times (fst (analyze_dns_layer s p t)) = dns_response_times s"
    if "dns p = Some d" "flags_response d = Some ''0''" "dns_id d = Some i"
      "qry_name d = None \<or> (\<exists>y. qry_type d = Some y)" for d i
    using that
    by (auto simp: analyze_dns_layer_def except_attribute_error_def then_do_def Let_def
        dict_get_dict_set split: option.splits)
  have response: "snd (analyze_dns_layer s p t) = None
      \<and> dns_response_times (fst (analyze_dns_layer s p t))
          = dns_response_times s @ [fsub t t0]
      \<and> pending_dns_queries (fst (analyze_dns_layer s p t))
          = dict_pop (pending_dns_queries s) i
      \<and> dict_get (dict_pop (pending_dns_queries s) i) i = None"
    if "dns p = Some d" "flags_response d = Some ''1''" "dns_id d = Some i"
      "qry_name d = None \<or> (\<exists>y. qry_type d = Some y)"
      "dict_get (pending_dns_queries s) i = Some t0" for d i t0
    using that
    by (auto simp: analyze_dns_layer_def except_attribute_error_def then_do_def Let_def
        dict_get_dict_pop split: option.splits)
  from query response dns_example [of now] show ?thesis
    unfolding to_double_1_4 by blast
qed

text \<open>
  C8 as the specification states it, for every DNS query record, fails on a query that
  has a name and no type: after \<open>update_stats\<close> its transaction id is not pending.
\<close>

theorem dns_query_without_type_counterexample:
  "dict_get (pending_dns_queries (fst (update_stats (initialize_stats (Finite 0))
       (dns_record 10 ''0'' ''42'' None)))) ''42'' = None"
  by (simp add: dns_record_step initialize_stats_def)

theorem dns_round_trip_rule_witness:
  "pending_dns_queries (fst (analyze_dns_layer (initialize_stats (Finite 0))
       (dns_record 10 ''0'' ''42'' (Some ''1'')) (Finite 10)))
   = [(''42'', Finite 10)]"
proof -
  let ?s = "initialize_stats (Finite 0)"
  let ?p = "dns_record 10 ''0'' ''42'' (Some ''1'')"
  let ?d = "\<lparr> flags_response = Some ''0'', response_time = False,
              qry_name = Some ''example.org'', qry_type = Some ''1'', dns_id = Some ''42'' \<rparr>"
  have "dns ?p = Some ?d" and "flags_response ?d = Some ''0''" and "dns_id ?d = Some ''42''"
    and "qry_name ?d = None \<or> (\<exists>y. qry_type ?d = Some y)"
    and "pending_dns_queries ?s = []"
    by (simp_all add: dns_record_def initialize_stats_def)
  with dns_round_trip_rule_and_example [of ?p ?s "Finite 10" "Finite 0"]
  have "pending_dns_queries (fst (analyze_dns_layer ?s ?p (Finite 10)))
        = dict_set [] ''42'' (Finite 10)"
    by metis
  then show ?thesis by simp
qed

subsection \<open>Baseline update: the empty capture\<close>

text \<open>
  C5, on the source. With \<open>packet_count = 0\<close> the body of \<open>update_baseline\<close> raises
  \<open>BaselineError\<close> inside the \<open>try\<close> block, the \<open>except Exception\<close> clause of the same
  function catches it, and the caller gets \<open>False\<close>; no file is touched.
\<close>

theorem update_baseline_empty_capture_returns_False:
  "packet_count s = 0 \<Longrightarrow>
   update_baseline_body bp wd f fs s = (Some BaselineError, fs)
   \<and> update_baseline bp wd f fs s = (False, fs)"
  by (simp add: update_baseline_def update_baseline_body_def)

theorem update_baseline_empty_capture_witness:
  "update_baseline default_path 0 NoFault (\<lambda>p. None) (initialize_stats (Finite 0))
   = (False, \<lambda>p. None)"
proof -
  have "packet_count (initialize_stats (Finite 0)) = 0"
    by (simp add: initialize_stats_def)
  from update_baseline_empty_capture_returns_False [OF this] show ?thesis by simp
qed

subsection \<open>Baseline update: a failed write\<close>

lemma with_suffix_default: "with_suffix default_path ''.tmp''
   = Inr \<lparr> anchor = [], names = [''network_baselines.tmp''] \<rparr>"
  by (simp add: with_suffix_def default_path_def name_of_def suffix_of_def Let_def)

lemma with_suffix_tmp_named: "with_suffix tmp_named_path ''.tmp'' = Inr tmp_named_path"
  by (simp add: with_suffix_def tmp_named_path_def name_of_def suffix_of_def Let_def)

lemma metrics_one_packet:
  "baseline_metrics one_packet_stats
   = Inr (JObj [(''tcp_retransmission_rate'', JFloat (Finite 0)),
                (''tcp_resets'', JInt 0),
                (''avg_tcp_handshake_delay'', JInt 0),
                (''avg_udp_jitter'', JInt 0),
                (''http_error_rate'', JFloat (Finite 0))])"
proof -
  have "safe_divide (PyInt 0) (PyInt 1) = Inr (Finite 0)"
    by code_simp
  then show ?thesis
    by (simp add: baseline_metrics_def one_packet_stats_def initialize_stats_def average_def
        dict_values_def)
qed

lemma save_baseline_failed_keeps:
  assumes "save_baseline bp f fs d = (Some e, fs')" and "with_suffix bp ''.tmp'' \<noteq> Inr bp"
  shows "fs' bp = fs bp"
  using assms
  by (auto simp: save_baseline_def Let_def split: if_splits sum.splits)

lemma update_baseline_failed_keeps:
  assumes "fst (update_baseline bp wd f fs s) = False" and "with_suffix bp ''.tmp'' \<noteq> Inr bp"
  shows "snd (update_baseline bp wd f fs s) bp = fs bp"
proof (cases "update_baseline_body bp wd f fs s")
  case (Pair r fs')
  with assms(1) obtain e where r: "r = Some e"
    by (cases r) (simp_all add: update_baseline_def)
  have "fs' bp = fs bp"
    using Pair r save_baseline_failed_keeps [OF _ assms(2)]
    by (auto simp: update_baseline_body_def Let_def split: if_splits sum.splits)
  with Pair r show ?thesis by (simp add: update_baseline_def)
qed

lemma packet_count_one_packet: "packet_count one_packet_stats = 1"
  by (simp add: one_packet_stats_def initialize_stats_def)

text \<open>
  C4, on the source. The temporary path is \<open>baseline_path.with_suffix('.tmp')\<close>. For a
  baseline path whose suffix is \<open>.tmp\<close> already it is the baseline path itself:
  \<open>open(temp_path, 'w')\<close> truncates the baseline file, and when the write then fails the
  update fails and the file no longer holds what it held. For every other path a failed
  update leaves the baseline file as it was (\<open>update_baseline_failed_keeps\<close>).
\<close>

theorem failed_write_truncates_tmp_named_baseline:
  "fst (update_baseline tmp_named_path 0 WriteFails
          ((\<lambda>p. None)(tmp_named_path \<mapsto> Json default_baseline)) one_packet_stats) = False
   \<and> snd (update_baseline tmp_named_path 0 WriteFails
          ((\<lambda>p. None)(tmp_named_path \<mapsto> Json default_baseline)) one_packet_stats)
        tmp_named_path = Some NotJson
   \<and> ((\<lambda>p. None)(tmp_named_path \<mapsto> Json default_baseline)) tmp_named_path
        = Some (Json default_baseline)"
proof -
  have "packet_count one_packet_stats = 1"
    by (simp add: one_packet_stats_def initialize_stats_def)
  then show ?thesis
    by (simp add: update_baseline_def update_baseline_body_def load_baseline_def
        or_default_def default_baseline_def metrics_one_packet save_baseline_def
        with_suffix_tmp_named get_baseline_type_def)
qed

subsection \<open>Baseline update: the buckets\<close>

lemma update_baseline_success:
  assumes "update_baseline bp wd f fs s = (True, fs')"
  shows "\<exists>loaded kvs bucket.
           load_baseline bp f fs = Inr loaded \<and> or_default loaded = JObj kvs
           \<and> baseline_metrics s = Inr bucket
           \<and> fs' bp = Some (Json (JObj (dict_set kvs (get_baseline_type wd) bucket)))"
proof -
  from assms obtain r where body: "update_baseline_body bp wd f fs s = (None, fs')"
    by (auto simp: update_baseline_def split: prod.splits option.splits)
  then obtain loaded where l: "load_baseline bp f fs = Inr loaded"
    by (auto simp: update_baseline_body_def Let_def split: if_splits sum.splits)
  from body l obtain bucket where m: "baseline_metrics s = Inr bucket"
    by (auto simp: update_baseline_body_def Let_def split: if_splits sum.splits)
  from body l m obtain new_data
    where n: "set_item (or_default loaded) (get_baseline_type wd) bucket = Inr new_data"
      and sv: "save_baseline bp f fs new_data = (None, fs')"
    by (auto simp: update_baseline_body_def Let_def split: if_splits sum.splits)
  from n obtain kvs where k: "or_default loaded = JObj kvs"
    and nd: "new_data = JObj (dict_set kvs (get_baseline_type wd) bucket)"
    by (cases "or_default loaded") auto
  from sv have "fs' bp = Some (Json new_data)"
    by (auto simp: save_baseline_def Let_def split: if_splits sum.splits)
  with l k m nd show ?thesis by blast
qed

lemma keys_dict_set: "set (map fst (dict_set d k v)) = insert k (set (map fst d))"
proof (induction d)
  case Nil
  show ?case by simp
next
  case (Cons kv d)
  then show ?case by (cases kv) (simp add: insert_commute)
qed

text \<open>
  C6, as the source has it. A successful update starts from the stored record, or from
  \<open>{"workday": {}, "weekend": {}}\<close> when there is no file or the stored value is falsy,
  sets the bucket of the current day type to the fresh metrics and writes the result.
  Every other key keeps its value, and the keys after the update are the keys of the
  record it started from and the current day type: the other key is present after the
  update exactly when the record it started from had it.
\<close>

theorem update_baseline_replaces_one_bucket:
  "(update_baseline bp wd f fs s = (True, fs') \<longrightarrow>
      (\<exists>loaded kvs bucket kvs'.
          load_baseline bp f fs = Inr loaded \<and> or_default loaded = JObj kvs
          \<and> baseline_metrics s = Inr bucket
          \<and> fs' bp = Some (Json (JObj kvs'))
          \<and> dict_get kvs' (get_baseline_type wd) = Some bucket
          \<and> (\<forall>k. k \<noteq> get_baseline_type wd \<longrightarrow> dict_get kvs' k = dict_get kvs k)
          \<and> set (map fst kvs') = insert (get_baseline_type wd) (set (map fst kvs))))
   \<and> or_default None = JObj [(''workday'', JObj []), (''weekend'', JObj [])]
   \<and> (\<forall>j. \<not> truthy j \<longrightarrow>
         or_default (Some j) = JObj [(''workday'', JObj []), (''weekend'', JObj [])])
   \<and> (\<forall>j. truthy j \<longrightarrow> or_default (Some j) = j)"
proof -
  have "\<exists>loaded kvs bucket kvs'.
          load_baseline bp f fs = Inr loaded \<and> or_default loaded = JObj kvs
          \<and> baseline_metrics s = Inr bucket
          \<and> fs' bp = Some (Json (JObj kvs'))
          \<and> dict_get kvs' (get_baseline_type wd) = Some bucket
          \<and> (\<forall>k. k \<noteq> get_baseline_type wd \<longrightarrow> dict_get kvs' k = dict_get kvs k)
          \<and> set (map fst kvs') = insert (get_baseline_type wd) (set (map fst kvs))"
    if "update_baseline bp wd f fs s = (True, fs')"
  proof -
    from update_baseline_success [OF that] obtain loaded kvs bucket
      where "load_baseline bp f fs = Inr loaded" "or_default loaded = JObj kvs"
        "baseline_metrics s = Inr bucket"
        "fs' bp = Some (Json (JObj (dict_set kvs (get_baseline_type wd) bucket)))"
      by blast
    moreover have "dict_get (dict_set kvs (get_baseline_type wd) bucket) (get_baseline_type wd)
        = Some bucket"
      by (simp add: dict_get_dict_set)
    moreover have "\<forall>k. k \<noteq> get_baseline_type wd \<longrightarrow>
        dict_get (dict_set kvs (get_baseline_type wd) bucket) k = dict_get kvs k"
      by (simp add: dict_get_dict_set)
    moreover have "set (map fst (dict_set kvs (get_baseline_type wd) bucket))
        = insert (get_baseline_type wd) (set (map fst kvs))"
      by (rule keys_dict_set)
    ultimately show ?thesis by blast
  qed
  then show ?thesis
    by (simp add: or_default_def default_baseline_def)
qed

lemma update_baseline_no_fault:
  assumes "packet_count s \<noteq> 0" and "load_baseline bp NoFault fs = Inr loaded"
    and "or_default loaded = JObj kvs" and "baseline_metrics s = Inr bucket"
    and "with_suffix bp ''.tmp'' = Inr tp"
  shows "fst (update_baseline bp wd NoFault fs s) = True"
    and "snd (update_baseline bp wd NoFault fs s) bp
         = Some (Json (JObj (dict_set kvs (get_baseline_type wd) bucket)))"
  using assms
  by (simp_all add: update_baseline_def update_baseline_body_def save_baseline_def Let_def)

text \<open>
  C6 as the specification states it, that both keys are present after every successful
  update, fails on a stored record \<open>{"workday": {}}\<close> updated on a workday.
\<close>

theorem update_baseline_one_key_counterexample:
  "fst (update_baseline default_path 0 NoFault
          ((\<lambda>p. None)(default_path \<mapsto> Json (JObj [(''workday'', JObj [])])))
          one_packet_stats) = True
   \<and> ''weekend'' \<notin> set (stored_keys
        (snd (update_baseline default_path 0 NoFault
          ((\<lambda>p. None)(default_path \<mapsto> Json (JObj [(''workday'', JObj [])])))
          one_packet_stats) default_path))"
proof -
  let ?fs = "(\<lambda>p. None)(default_path \<mapsto> Json (JObj [(''workday'', JObj [])]))"
  have l: "load_baseline default_path NoFault ?fs = Inr (Some (JObj [(''workday'', JObj [])]))"
    by (simp add: load_baseline_def)
  have o: "or_default (Some (JObj [(''workday'', JObj [])])) = JObj [(''workday'', JObj [])]"
    by (simp add: or_default_def)
  have p: "packet_count one_packet_stats \<noteq> 0"
    by (simp add: packet_count_one_packet)
  from update_baseline_no_fault [OF p l o metrics_one_packet with_suffix_default, of 0]
  show ?thesis
    by (simp add: get_baseline_type_def)
qed

theorem update_baseline_replaces_one_bucket_witness:
  "fst (update_baseline default_path 0 NoFault
          ((\<lambda>p. None)(default_path \<mapsto>
             Json (JObj [(''workday'', JObj []), (''weekend'', JObj [(''avg_udp_jitter'', JInt 7)])])))
          one_packet_stats) = True
   \<and> (\<exists>kvs'. snd (update_baseline default_path 0 NoFault
          ((\<lambda>p. None)(default_path \<mapsto>
             Json (JObj [(''workday'', JObj []), (''weekend'', JObj [(''avg_udp_jitter'', JInt 7)])])))
          one_packet_stats) default_path = Some (Json (JObj kvs'))
        \<and> dict_get kvs' ''weekend'' = Some (JObj [(''avg_udp_jitter'', JInt 7)]))"
proof -
  let ?old = "[(''workday'', JObj []), (''weekend'', JObj [(''avg_udp_jitter'', JInt 7)])]"
  let ?fs = "(\<lambda>p. None)(default_path \<mapsto> Json (JObj ?old))"
  let ?r = "update_baseline default_path 0 NoFault ?fs one_packet_stats"
  have l: "load_baseline default_path NoFault ?fs = Inr (Some (JObj ?old))"
    by (simp add: load_baseline_def)
  have o: "or_default (Some (JObj ?old)) = JObj ?old"
    by (simp add: or_default_def)
  have p: "packet_count one_packet_stats \<noteq> 0"
    by (simp add: packet_count_one_packet)
  from update_baseline_no_fault(1) [OF p l o metrics_one_packet with_suffix_default, of 0]
  have t: "fst ?r = True" .
  then have "?r = (True, snd ?r)"
    by (simp add: prod_eq_iff)
  with update_baseline_replaces_one_bucket [of default_path 0 NoFault ?fs one_packet_stats "snd ?r"]
  obtain loaded kvs kvs' where "load_baseline default_path NoFault ?fs = Inr loaded"
    and "or_default loaded = JObj kvs" and k': "snd ?r default_path = Some (Json (JObj kvs'))"
    and "\<forall>k. k \<noteq> get_baseline_type 0 \<longrightarrow> dict_get kvs' k = dict_get kvs k"
    by blast
  with l o have "dict_get kvs' ''weekend'' = dict_get ?old ''weekend''"
    by (simp add: get_baseline_type_def)
  with t k' show ?thesis by simp
qed

subsection \<open>The metrics of a baseline\<close>










end
